theory Spec2Isabelle
  imports Complex_Main "HOL-Library.Sublist" "HOL-Library.Multiset"
begin

section \<open>JavaScript strings\<close>

text \<open>
  A JavaScript string is a sequence of UTF-16 code units. The regular expressions of the
  client carry no \<^verbatim>\<open>u\<close> flag, so they match code unit by code unit.
  \<^verbatim>\<open>String.prototype.toLowerCase\<close> is the engine's Unicode lowercasing; it is taken as a
  parameter \<open>lc\<close> wherever the code calls it, and \<open>ascii_lower\<close> is the instance used
  on examples (it agrees with the engine on ASCII input).
\<close>

type_synonym code_unit = nat
type_synonym js_string = "code_unit list"

definition js :: "string \<Rightarrow> js_string" where
  "js s = map of_char s"

definition ascii_lower :: "js_string \<Rightarrow> js_string" where
  "ascii_lower s = map (\<lambda>c. if 65 \<le> c \<and> c \<le> 90 then c + 32 else c) s"

definition hyphen :: code_unit where
  "hyphen = 45"

text \<open>The class \<^verbatim>\<open>\s\<close> of an ECMAScript regular expression: WhiteSpace and LineTerminator.\<close>

definition is_space :: "code_unit \<Rightarrow> bool" where
  "is_space c \<longleftrightarrow>
     c \<in> {9, 10, 11, 12, 13, 32, 160, 5760, 8232, 8233, 8239, 8287, 12288, 65279}
     \<or> (8192 \<le> c \<and> c \<le> 8202)"

definition is_lower_az :: "code_unit \<Rightarrow> bool" where
  "is_lower_az c \<longleftrightarrow> 97 \<le> c \<and> c \<le> 122"

definition is_digit09 :: "code_unit \<Rightarrow> bool" where
  "is_digit09 c \<longleftrightarrow> 48 \<le> c \<and> c \<le> 57"

text \<open>\<^verbatim>\<open>s.replace(/[^a-z0-9\s-]/g, '')\<close>: every code unit outside the class is deleted.\<close>

definition strip_other :: "js_string \<Rightarrow> js_string" where
  "strip_other s = filter (\<lambda>c. is_lower_az c \<or> is_digit09 c \<or> is_space c \<or> c = hyphen) s"

text \<open>
  \<^verbatim>\<open>s.replace(/X+/g, r)\<close> for a one-unit class \<open>X\<close>: scanning from the left, every maximal
  run of units of the class is replaced by the single unit \<open>r\<close>.
\<close>

function replace_runs :: "('a \<Rightarrow> bool) \<Rightarrow> 'a \<Rightarrow> 'a list \<Rightarrow> 'a list" where
  "replace_runs P r [] = []"
| "replace_runs P r (c # cs) =
     (if P c then r # replace_runs P r (dropWhile P cs) else c # replace_runs P r cs)"
  by pat_completeness auto
termination
  by (relation "measure (\<lambda>(P, r, cs). length cs)") (auto simp: length_dropWhile_le less_Suc_eq_le)

text \<open>\<^verbatim>\<open>String.prototype.trim\<close>: white space and line terminators leave both ends.\<close>

definition trim :: "js_string \<Rightarrow> js_string" where
  "trim s = rev (dropWhile is_space (rev (dropWhile is_space s)))"

text \<open>
  The slug of \<^verbatim>\<open>handleSubmit\<close> in the post form:
  \<^verbatim>\<open>formData.title.toLowerCase().replace(/[^a-z0-9\s-]/g, '').replace(/\s+/g, '-')
    .replace(/-+/g, '-').trim()\<close>.
\<close>

definition handleSubmit_slug :: "(js_string \<Rightarrow> js_string) \<Rightarrow> js_string \<Rightarrow> js_string" where
  "handleSubmit_slug lc title =
     trim (replace_runs (\<lambda>c. c = hyphen) hyphen
            (replace_runs is_space hyphen (strip_other (lc title))))"

definition slug_unit :: "code_unit \<Rightarrow> bool" where
  "slug_unit c \<longleftrightarrow> is_lower_az c \<or> is_digit09 c \<or> c = hyphen"

section \<open>The cleanup script\<close>

text \<open>
  The script removes the retired backend. Node's \<^verbatim>\<open>fs\<close> and \<^verbatim>\<open>path\<close> modules are library
  code: their functions are the fields of \<open>node_api\<close>, over any type \<open>'fs\<close> of file system
  states. A call that throws returns the error's message; \<^verbatim>\<open>rmSync\<close> and
  \<^verbatim>\<open>unlinkSync\<close> return the file system they leave behind also when they throw. The
  model records every \<^verbatim>\<open>fs\<close> call in a trace; console output is left out, the counts and
  the error message that the script prints are carried by the outcome.
\<close>

type_synonym path = js_string

datatype fs_call = ExistsSync path | StatSync path | RmSync path | UnlinkSync path

record 'fs node_api =
  path_join :: "path \<Rightarrow> path \<Rightarrow> path"
  existsSync :: "path \<Rightarrow> 'fs \<Rightarrow> bool"
  statSync_isDirectory :: "path \<Rightarrow> 'fs \<Rightarrow> js_string + bool"
  rmSync :: "path \<Rightarrow> 'fs \<Rightarrow> js_string option \<times> 'fs"
  unlinkSync :: "path \<Rightarrow> 'fs \<Rightarrow> js_string option \<times> 'fs"

record 'fs world =
  fsys :: 'fs
  trace :: "fs_call list"

datatype outcome = Cancelled | Completed nat nat | Exit_failure js_string

definition itemsToRemove :: "js_string list" where
  "itemsToRemove = map js [''backend'', ''clients/ts-sdk'', ''clients/ts-sdk-tests'',
     ''Cargo.toml'', ''Cargo.lock'', ''docker-compose.yml'']"

definition called :: "fs_call \<Rightarrow> 'fs world \<Rightarrow> 'fs world" where
  "called c w = w\<lparr>trace := trace w @ [c]\<rparr>"

text \<open>\<^verbatim>\<open>removeRecursive(itemPath)\<close>: \<open>Inr True\<close> removed, \<open>Inr False\<close> not found, \<open>Inl\<close> thrown.\<close>

definition removeRecursive :: "'fs node_api \<Rightarrow> path \<Rightarrow> 'fs world \<Rightarrow> (js_string + bool) \<times> 'fs world" where
  "removeRecursive api itemPath w =
     (let w1 = called (ExistsSync itemPath) w in
      if existsSync api itemPath (fsys w1) then
        (let w2 = called (StatSync itemPath) w1 in
         case statSync_isDirectory api itemPath (fsys w2) of
           Inl e \<Rightarrow> (Inl e, w2)
         | Inr isDirectory \<Rightarrow>
             if isDirectory then
               (case rmSync api itemPath (fsys w2) of
                  (Some e, fs') \<Rightarrow> (Inl e, (called (RmSync itemPath) w2)\<lparr>fsys := fs'\<rparr>)
                | (None, fs') \<Rightarrow> (Inr True, (called (RmSync itemPath) w2)\<lparr>fsys := fs'\<rparr>))
             else
               (case unlinkSync api itemPath (fsys w2) of
                  (Some e, fs') \<Rightarrow> (Inl e, (called (UnlinkSync itemPath) w2)\<lparr>fsys := fs'\<rparr>)
                | (None, fs') \<Rightarrow> (Inr True, (called (UnlinkSync itemPath) w2)\<lparr>fsys := fs'\<rparr>)))
      else (Inr False, w1))"

text \<open>\<^verbatim>\<open>promptUser\<close> resolves with \<^verbatim>\<open>answer.toLowerCase()\<close>.\<close>

definition promptUser :: "(js_string \<Rightarrow> js_string) \<Rightarrow> js_string \<Rightarrow> js_string" where
  "promptUser lc answer = lc answer"

text \<open>
  The loop \<^verbatim>\<open>for (const item of itemsToRemove)\<close> of \<^verbatim>\<open>main\<close>, with the pair
  \<open>(removedCount, skippedCount)\<close>; a thrown error leaves the loop.
\<close>

fun remove_items ::
  "'fs node_api \<Rightarrow> path \<Rightarrow> js_string list \<Rightarrow> nat \<times> nat \<Rightarrow> 'fs world \<Rightarrow> (js_string + nat \<times> nat) \<times> 'fs world" where
  "remove_items api cwd [] counts w = (Inr counts, w)"
| "remove_items api cwd (item # rest) (removedCount, skippedCount) w =
     (case removeRecursive api (path_join api cwd item) w of
        (Inl e, w') \<Rightarrow> (Inl e, w')
      | (Inr removed, w') \<Rightarrow>
          remove_items api cwd rest
            (if removed then (removedCount + 1, skippedCount) else (removedCount, skippedCount + 1)) w')"

text \<open>
  \<^verbatim>\<open>main\<close> with its rejection handler \<^verbatim>\<open>main().catch(...)\<close>, which prints the message and
  calls \<^verbatim>\<open>process.exit(1)\<close>. \<open>answer\<close> is what the user typed, \<open>cwd\<close> is
  \<^verbatim>\<open>process.cwd()\<close>.
\<close>

definition main :: "'fs node_api \<Rightarrow> (js_string \<Rightarrow> js_string) \<Rightarrow> path \<Rightarrow> js_string \<Rightarrow> 'fs \<Rightarrow> outcome \<times> 'fs world" where
  "main api lc cwd answer fs0 =
     (if promptUser lc answer \<noteq> js ''yes'' then (Cancelled, \<lparr>fsys = fs0, trace = []\<rparr>)
      else
        (case remove_items api cwd itemsToRemove (0, 0) \<lparr>fsys = fs0, trace = []\<rparr> of
           (Inl e, w) \<Rightarrow> (Exit_failure e, w)
         | (Inr (removedCount, skippedCount), w) \<Rightarrow> (Completed removedCount skippedCount, w)))"

text \<open>The paths a trace probes with \<^verbatim>\<open>existsSync\<close>, and the paths it removes.\<close>

fun probes :: "fs_call list \<Rightarrow> path list" where
  "probes [] = []"
| "probes (ExistsSync p # cs) = p # probes cs"
| "probes (c # cs) = probes cs"

fun removals :: "fs_call list \<Rightarrow> path list" where
  "removals [] = []"
| "removals (RmSync p # cs) = p # removals cs"
| "removals (UnlinkSync p # cs) = p # removals cs"
| "removals (c # cs) = removals cs"

fun call_path :: "fs_call \<Rightarrow> path" where
  "call_path (ExistsSync p) = p"
| "call_path (StatSync p) = p"
| "call_path (RmSync p) = p"
| "call_path (UnlinkSync p) = p"

text \<open>No \<^verbatim>\<open>fs\<close> call of the script throws, on any path and any file system.\<close>

definition never_throws :: "'fs node_api \<Rightarrow> bool" where
  "never_throws api \<longleftrightarrow>
     (\<forall>p fs. (\<exists>b. statSync_isDirectory api p fs = Inr b)
        \<and> fst (rmSync api p fs) = None \<and> fst (unlinkSync api p fs) = None)"

text \<open>
  Two file systems for examples. A state is the list of the paths that exist, all of them
  plain files, and \<^verbatim>\<open>path.join\<close> puts a slash between a directory and a relative path.
  \<open>flat_api\<close> never throws; under \<open>refusing_api\<close> every \<^verbatim>\<open>unlinkSync\<close> throws
  \<^verbatim>\<open>EACCES\<close> and removes nothing.
\<close>

definition flat_api :: "path list node_api" where
  "flat_api = \<lparr>path_join = (\<lambda>d f. d @ js ''/'' @ f),
               existsSync = (\<lambda>p fs. p \<in> set fs),
               statSync_isDirectory = (\<lambda>p fs. Inr False),
               rmSync = (\<lambda>p fs. (None, removeAll p fs)),
               unlinkSync = (\<lambda>p fs. (None, removeAll p fs))\<rparr>"

definition refusing_api :: "path list node_api" where
  "refusing_api = flat_api\<lparr>unlinkSync := (\<lambda>p fs. (Some (js ''EACCES''), fs))\<rparr>"

definition repo_files :: "path list" where
  "repo_files = [js ''/repo/backend'', js ''/repo/Cargo.toml'', js ''/repo/README.md'']"

section \<open>The client and its provider\<close>

text \<open>
  A call of the hosted database client resolves to an object with \<^verbatim>\<open>data\<close> and
  \<^verbatim>\<open>error\<close>, each possibly \<^verbatim>\<open>null\<close>, or the awaited promise rejects. The provider is a
  function from the number of requests issued so far and the request to its response, so
  that a second identical request may be answered differently from the first. Every state
  record keeps the list of the requests its handlers have issued.
\<close>

datatype ('d, 'e) response = Returned "'d option" "'e option" | Thrown 'e

datatype app_request = Select_published_posts | Select_user_by_id js_string

datatype 'e console_line = Console_error string 'e

subsection \<open>\<^verbatim>\<open>AppDataProvider\<close>\<close>

record ('p, 'e) app_data =
  posts_st :: "'p list option"
  singlePost :: "'p option"
  console :: "'e console_line list"
  issued :: "app_request list"

text \<open>
  \<^verbatim>\<open>fetchPosts\<close>: one awaited query
  \<^verbatim>\<open>from('posts').select('*').eq('is_published', true).order('created_at', {ascending: false}).limit(20)\<close>.
\<close>

definition fetchPosts ::
  "(nat \<Rightarrow> app_request \<Rightarrow> ('p list, 'e) response) \<Rightarrow> ('p, 'e) app_data \<Rightarrow> ('p, 'e) app_data" where
  "fetchPosts supabase st =
     (let r = supabase (length (issued st)) Select_published_posts;
          st1 = st\<lparr>issued := issued st @ [Select_published_posts]\<rparr>
      in case r of
           Thrown e \<Rightarrow> st1\<lparr>console := console st1 @ [Console_error ''Error in fetchPosts:'' e]\<rparr>
         | Returned d (Some e) \<Rightarrow>
             st1\<lparr>console := console st1 @ [Console_error ''Error fetching posts:'' e]\<rparr>
         | Returned d None \<Rightarrow> st1\<lparr>posts_st := d\<rparr>)"

subsection \<open>\<^verbatim>\<open>AuthProvider\<close>\<close>

text \<open>
  \<^verbatim>\<open>User\<close> and \<^verbatim>\<open>Session\<close> are types of the auth client; a session always carries its
  user. The profile rows are held as they come, so their types are parameters.
\<close>

record auth_user =
  au_id :: js_string
  au_email :: "js_string option"

record auth_session =
  sess_user :: auth_user
  access_token :: js_string

datatype auth_event =
  INITIAL_SESSION | SIGNED_IN | SIGNED_OUT | TOKEN_REFRESHED | USER_UPDATED | PASSWORD_RECOVERY
  | MFA_CHALLENGE_VERIFIED

record ('prof, 'cprof) auth_state =
  user :: "auth_user option"
  userProfile :: "'prof option"
  creatorProfile :: "'cprof option"
  session :: "auth_session option"
  loading :: bool
  initialLoadComplete :: bool
  auth_issued :: "app_request list"

text \<open>
  \<^verbatim>\<open>loadUserProfile(userId)\<close> is asynchronous and the handler does not await it. Calling it
  runs its body up to the first \<^verbatim>\<open>await\<close>, which issues the query
  \<^verbatim>\<open>from('users').select('*').eq('id', userId).single()\<close>; what it does when the response
  arrives happens after the handler has returned and is not part of the handler.
\<close>

definition loadUserProfile_begin ::
  "js_string \<Rightarrow> ('prof, 'cprof) auth_state \<Rightarrow> ('prof, 'cprof) auth_state" where
  "loadUserProfile_begin userId st = st\<lparr>auth_issued := auth_issued st @ [Select_user_by_id userId]\<rparr>"

text \<open>The callback that \<^verbatim>\<open>AuthProvider\<close> passes to \<^verbatim>\<open>supabase.auth.onAuthStateChange\<close>.\<close>

definition onAuthStateChange ::
  "auth_event \<Rightarrow> auth_session option \<Rightarrow> ('prof, 'cprof) auth_state \<Rightarrow> ('prof, 'cprof) auth_state" where
  "onAuthStateChange event sess st =
     (let st1 = st\<lparr>session := sess, user := map_option sess_user sess\<rparr>;
          st2 = (case sess of
                   Some s \<Rightarrow> loadUserProfile_begin (au_id (sess_user s)) st1
                 | None \<Rightarrow> st1\<lparr>userProfile := None, creatorProfile := None\<rparr>)
      in st2\<lparr>initialLoadComplete := True, loading := False\<rparr>)"

subsection \<open>The creator profile page and the post card\<close>

text \<open>
  The counters of the \<^verbatim>\<open>CreatorProfile\<close> interface are JavaScript numbers. The counts are
  modelled as integers (the engine computes exactly on integers below \<open>2^53\<close>). Amounts
  are floating point: their type is a parameter \<open>'n\<close>, and \<^verbatim>\<open>parseFloat\<close>, the test
  \<^verbatim>\<open>isNaN(amount) || amount <= 0\<close> and the addition are the fields of \<open>number_ops\<close>.
\<close>

record 'n number_ops =
  parseFloat :: "js_string \<Rightarrow> 'n"
  nan_or_not_positive :: "'n \<Rightarrow> bool"
  num_add :: "'n \<Rightarrow> 'n \<Rightarrow> 'n"

record 'n ui_profile =
  ui_id :: js_string
  ui_user_id :: js_string
  ui_bio :: "js_string option"
  ui_category :: "js_string option"
  ui_website_url :: "js_string option"
  ui_twitter_handle :: "js_string option"
  ui_instagram_handle :: "js_string option"
  ui_youtube_channel :: "js_string option"
  ui_total_earnings :: 'n
  ui_supporters_count :: int
  ui_followers_count :: int
  ui_posts_count :: int
  ui_likes_count :: int

datatype 'n page_request =
    Insert_follow js_string js_string
  | Delete_follow js_string js_string
  | Insert_pending_transaction js_string js_string 'n "js_string option"

text \<open>A write resolves with \<^verbatim>\<open>error\<close> null, resolves with an error object, or rejects.\<close>

datatype 'e mutation = Done | Refused 'e | Rejected 'e

datatype ('n, 'e) page_message =
  Logged string 'e | Logged_invalid_amount | Alert_sent 'n | Alert_failed

record ('n, 'e) profile_page =
  pg_creatorProfile :: "'n ui_profile option"
  pg_isFollowing :: bool
  pg_isSupporting :: bool
  pg_supportAmount :: js_string
  pg_showSupportDialog :: bool
  pg_supportMessage :: js_string
  pg_messages :: "('n, 'e) page_message list"
  pg_issued :: "'n page_request list"

text \<open>\<^verbatim>\<open>handleFollow\<close>; \<open>usr\<close> is \<^verbatim>\<open>user\<close> of the auth context, \<open>creatorId\<close> the route parameter.\<close>

definition handleFollow ::
  "(nat \<Rightarrow> 'n page_request \<Rightarrow> 'e mutation) \<Rightarrow> auth_user option \<Rightarrow> js_string option
     \<Rightarrow> ('n, 'e) profile_page \<Rightarrow> ('n, 'e) profile_page" where
  "handleFollow supabase usr creatorId st =
     (case (usr, creatorId) of
        (Some u, Some cid) \<Rightarrow>
          if cid = [] then st
          else if pg_isFollowing st then
            (let rq = Delete_follow (au_id u) cid;
                 st1 = st\<lparr>pg_issued := pg_issued st @ [rq]\<rparr>
             in case supabase (length (pg_issued st)) rq of
                  Done \<Rightarrow>
                    st1\<lparr>pg_isFollowing := False,
                        pg_creatorProfile :=
                          map_option (\<lambda>cp. cp\<lparr>ui_followers_count := max 0 (ui_followers_count cp - 1)\<rparr>)
                            (pg_creatorProfile st1)\<rparr>
                | Refused e \<Rightarrow> st1\<lparr>pg_messages := pg_messages st1 @ [Logged ''Error toggling follow:'' e]\<rparr>
                | Rejected e \<Rightarrow> st1\<lparr>pg_messages := pg_messages st1 @ [Logged ''Error toggling follow:'' e]\<rparr>)
          else
            (let rq = Insert_follow (au_id u) cid;
                 st1 = st\<lparr>pg_issued := pg_issued st @ [rq]\<rparr>
             in case supabase (length (pg_issued st)) rq of
                  Done \<Rightarrow>
                    st1\<lparr>pg_isFollowing := True,
                        pg_creatorProfile :=
                          map_option (\<lambda>cp. cp\<lparr>ui_followers_count := ui_followers_count cp + 1\<rparr>)
                            (pg_creatorProfile st1)\<rparr>
                | Refused e \<Rightarrow> st1\<lparr>pg_messages := pg_messages st1 @ [Logged ''Error toggling follow:'' e]\<rparr>
                | Rejected e \<Rightarrow> st1\<lparr>pg_messages := pg_messages st1 @ [Logged ''Error toggling follow:'' e]\<rparr>)
      | _ \<Rightarrow> st)"

text \<open>
  \<^verbatim>\<open>handleSupport\<close>. The inserted row has status \<^verbatim>\<open>pending\<close> and gateway
  \<^verbatim>\<open>bank_transfer\<close>; the message is \<^verbatim>\<open>supportMessage || null\<close>.
\<close>

definition handleSupport ::
  "'n number_ops \<Rightarrow> (nat \<Rightarrow> 'n page_request \<Rightarrow> 'e mutation) \<Rightarrow> auth_user option \<Rightarrow> js_string option
     \<Rightarrow> ('n, 'e) profile_page \<Rightarrow> ('n, 'e) profile_page" where
  "handleSupport ops supabase usr creatorId st =
     (case (usr, creatorId) of
        (Some u, Some cid) \<Rightarrow>
          if cid = [] \<or> pg_supportAmount st = [] then st
          else
            (let amount = parseFloat ops (pg_supportAmount st) in
             if nan_or_not_positive ops amount then
               st\<lparr>pg_messages := pg_messages st @ [Logged_invalid_amount, Alert_failed],
                  pg_isSupporting := False\<rparr>
             else
               (let rq = Insert_pending_transaction (au_id u) cid amount
                           (if pg_supportMessage st = [] then None else Some (pg_supportMessage st));
                    st1 = st\<lparr>pg_issued := pg_issued st @ [rq]\<rparr>
                in case supabase (length (pg_issued st)) rq of
                     Done \<Rightarrow>
                       st1\<lparr>pg_creatorProfile :=
                             map_option
                               (\<lambda>cp. cp\<lparr>ui_total_earnings := num_add ops (ui_total_earnings cp) amount,
                                         ui_supporters_count := ui_supporters_count cp + 1\<rparr>)
                               (pg_creatorProfile st1),
                           pg_showSupportDialog := False,
                           pg_supportMessage := [],
                           pg_supportAmount := js ''100'',
                           pg_messages := pg_messages st1 @ [Alert_sent amount],
                           pg_isSupporting := False\<rparr>
                   | Refused e \<Rightarrow>
                       st1\<lparr>pg_messages :=
                             pg_messages st1 @ [Logged ''Error supporting creator:'' e, Alert_failed],
                           pg_isSupporting := False\<rparr>
                   | Rejected e \<Rightarrow>
                       st1\<lparr>pg_messages :=
                             pg_messages st1 @ [Logged ''Error supporting creator:'' e, Alert_failed],
                           pg_isSupporting := False\<rparr>))
      | _ \<Rightarrow> st)"

text \<open>
  \<^verbatim>\<open>PostCard\<close>: \<^verbatim>\<open>likesCount\<close> starts as \<^verbatim>\<open>post.likes_count || 0\<close>. \<^verbatim>\<open>handleLike\<close> first
  looks for the user's like of the post, then deletes or inserts it.
\<close>

datatype card_request =
    Select_like js_string js_string
  | Insert_like js_string js_string
  | Delete_like js_string js_string

record 'e post_card =
  isLiked :: bool
  likesCount :: int
  isLiking :: bool
  card_console :: "'e console_line list"
  card_issued :: "card_request list"

definition handleLike ::
  "(nat \<Rightarrow> card_request \<Rightarrow> ('like, 'e) response) \<Rightarrow> (nat \<Rightarrow> card_request \<Rightarrow> 'e mutation)
     \<Rightarrow> auth_user option \<Rightarrow> js_string \<Rightarrow> 'e post_card \<Rightarrow> 'e post_card" where
  "handleLike supabase_select supabase_write usr post_id st =
     (case usr of
        None \<Rightarrow> st
      | Some u \<Rightarrow>
          if isLiking st then st
          else
            (let q1 = Select_like post_id (au_id u);
                 st1 = st\<lparr>card_issued := card_issued st @ [q1]\<rparr>
             in case supabase_select (length (card_issued st)) q1 of
                  Thrown e \<Rightarrow>
                    st1\<lparr>card_console := card_console st1 @ [Console_error ''Error toggling like:'' e],
                        isLiking := False\<rparr>
                | Returned existingLike err \<Rightarrow>
                    (let q2 = (case existingLike of
                                 Some l \<Rightarrow> Delete_like post_id (au_id u)
                               | None \<Rightarrow> Insert_like post_id (au_id u));
                         st2 = st1\<lparr>card_issued := card_issued st1 @ [q2]\<rparr>
                     in case supabase_write (length (card_issued st1)) q2 of
                          Done \<Rightarrow>
                            (case existingLike of
                               Some l \<Rightarrow>
                                 st2\<lparr>isLiked := False, likesCount := max 0 (likesCount st2 - 1),
                                     isLiking := False\<rparr>
                             | None \<Rightarrow>
                                 st2\<lparr>isLiked := True, likesCount := likesCount st2 + 1,
                                     isLiking := False\<rparr>)
                        | Refused e \<Rightarrow> st2\<lparr>isLiking := False\<rparr>
                        | Rejected e \<Rightarrow>
                            st2\<lparr>card_console :=
                                  card_console st2 @ [Console_error ''Error toggling like:'' e],
                                isLiking := False\<rparr>)))"

text \<open>What the page holds of the three counters that its handlers touch.\<close>

definition held_followers :: "('n, 'e) profile_page \<Rightarrow> int option" where
  "held_followers st = map_option ui_followers_count (pg_creatorProfile st)"

definition held_supporters :: "('n, 'e) profile_page \<Rightarrow> int option" where
  "held_supporters st = map_option ui_supporters_count (pg_creatorProfile st)"

definition held_earnings :: "('n, 'e) profile_page \<Rightarrow> 'n option" where
  "held_earnings st = map_option ui_total_earnings (pg_creatorProfile st)"

subsection \<open>Example states and providers\<close>

text \<open>A provider that fails the first request and answers the second.\<close>

definition flaky :: "nat \<Rightarrow> app_request \<Rightarrow> (nat list, string) response" where
  "flaky n q = (if n = 0 then Returned None (Some ''timeout'') else Returned (Some [1, 2]) None)"

definition app0 :: "(nat, string) app_data" where
  "app0 = \<lparr>posts_st = Some [7], singlePost = None, console = [], issued = []\<rparr>"

definition viewer :: auth_user where
  "viewer = \<lparr>au_id = js ''u2'', au_email = None\<rparr>"

definition signed_in :: "(nat, nat) auth_state" where
  "signed_in = \<lparr>user = Some viewer, userProfile = Some 1, creatorProfile = Some 2,
                session = Some \<lparr>sess_user = viewer, access_token = js ''t''\<rparr>,
                loading = True, initialLoadComplete = False, auth_issued = []\<rparr>"

text \<open>A page that holds \<open>n\<close> followers for creator \<^verbatim>\<open>u1\<close>, and a provider that accepts every write.\<close>

definition example_profile :: "int \<Rightarrow> int ui_profile" where
  "example_profile n =
     \<lparr>ui_id = js ''cp1'', ui_user_id = js ''u1'', ui_bio = None, ui_category = None,
      ui_website_url = None, ui_twitter_handle = None, ui_instagram_handle = None,
      ui_youtube_channel = None, ui_total_earnings = 0, ui_supporters_count = 0, ui_followers_count = n,
      ui_posts_count = 0, ui_likes_count = 0\<rparr>"

definition example_page :: "int \<Rightarrow> (int, string) profile_page" where
  "example_page n =
     \<lparr>pg_creatorProfile = Some (example_profile n), pg_isFollowing = False,
      pg_isSupporting = False, pg_supportAmount = js ''100'', pg_showSupportDialog = True,
      pg_supportMessage = [], pg_messages = [], pg_issued = []\<rparr>"

definition example_card :: "string post_card" where
  "example_card = \<lparr>isLiked = False, likesCount = 3, isLiking = False, card_console = [],
                    card_issued = []\<rparr>"

definition accepting :: "nat \<Rightarrow> 'q \<Rightarrow> string mutation" where
  "accepting n q = Done"

definition no_like_yet :: "nat \<Rightarrow> card_request \<Rightarrow> (nat, string) response" where
  "no_like_yet n q = Returned None (Some ''PGRST116'')"

definition int_ops :: "int number_ops" where
  "int_ops = \<lparr>parseFloat = (\<lambda>s. if s = js ''100'' then 100 else 0),
              nan_or_not_positive = (\<lambda>a. a \<le> 0), num_add = (+)\<rparr>"

section \<open>The database\<close>

text \<open>
  The tables that the stored procedures and triggers of the helper-function migration read
  and write, with the columns they mention; field names carry the alias the SQL uses for
  the table. A table is the list of its rows. A column that the SQL guards with
  \<^verbatim>\<open>COALESCE\<close> or \<^verbatim>\<open>IS NULL\<close>, and \<^verbatim>\<open>posts.series_id\<close>, which the client leaves out of
  its inserts, may be null. \<^verbatim>\<open>uuid\<close> values are numbered, a \<^verbatim>\<open>timestamptz\<close> is an integer
  and \<^verbatim>\<open>numeric\<close> is a rational.
\<close>

type_synonym uuid = nat
type_synonym timestamptz = int

record users_row =
  u_id :: uuid
  u_display_name :: string
  u_avatar_url :: "string option"
  u_is_verified :: bool

record creator_profiles_row =
  cp_user_id :: uuid
  cp_followers_count :: "int option"
  cp_posts_count :: "int option"
  cp_series_count :: "int option"
  cp_likes_count :: "int option"

record series_row =
  s_id :: uuid
  s_user_id :: uuid
  s_title :: string
  s_posts_count :: "int option"
  s_deleted_at :: "timestamptz option"

record posts_row =
  p_id :: uuid
  p_user_id :: uuid
  p_series_id :: "uuid option"
  p_title :: string
  p_content :: string
  p_number :: int
  p_thumbnail_url :: "string option"
  p_created_at :: timestamptz
  p_is_published :: bool
  p_deleted_at :: "timestamptz option"
  p_likes_count :: "int option"
  p_comments_count :: "int option"
  p_views_count :: "int option"

record follows_row =
  f_follower_id :: uuid
  f_following_id :: uuid

record post_likes_row =
  pl_post_id :: uuid
  pl_user_id :: uuid

record post_comments_row =
  pc_post_id :: uuid
  pc_user_id :: uuid

record supporter_transactions_row =
  st_id :: uuid
  st_supporter_id :: uuid
  st_creator_id :: uuid
  st_amount :: rat
  st_status :: string

record subscriptions_row =
  sub_id :: uuid
  sub_creator_id :: uuid
  sub_status :: string

record database =
  users :: "users_row list"
  creator_profiles :: "creator_profiles_row list"
  series :: "series_row list"
  posts :: "posts_row list"
  follows :: "follows_row list"
  post_likes :: "post_likes_row list"
  post_comments :: "post_comments_row list"
  supporter_transactions :: "supporter_transactions_row list"
  subscriptions :: "subscriptions_row list"

datatype sql_error =
  Ambiguous_column string | Undefined_column string | Negative_limit | Negative_offset

subsection \<open>Feeds\<close>

text \<open>
  The result rows. \<^verbatim>\<open>get_user_feed\<close> returns the fifteen columns of \<open>feed_row\<close>;
  \<^verbatim>\<open>get_discovery_feed\<close> returns two more.
\<close>

record feed_row =
  post_id :: uuid
  series_id :: "uuid option"
  series_title :: string
  creator_id :: uuid
  creator_name :: string
  creator_avatar_url :: "string option"
  creator_verified :: bool
  post_title :: string
  post_content :: string
  post_number :: int
  post_thumbnail_url :: "string option"
  post_created_at :: timestamptz
  likes_count :: int
  comments_count :: int
  user_has_liked :: bool

record discovery_row = feed_row +
  views_count :: int
  user_follows_creator :: bool

definition coalesce :: "'a option \<Rightarrow> 'a \<Rightarrow> 'a" where
  "coalesce v d = (case v of None \<Rightarrow> d | Some x \<Rightarrow> x)"

text \<open>
  \<^verbatim>\<open>posts p INNER JOIN users u ON p.user_id = u.id INNER JOIN series s ON p.series_id = s.id\<close>
  under the \<^verbatim>\<open>WHERE\<close> clause of both feeds. A null \<^verbatim>\<open>series_id\<close> joins with no series.
\<close>

definition published_posts :: "database \<Rightarrow> (posts_row \<times> users_row \<times> series_row) list" where
  "published_posts db =
     [(p, u, s). p \<leftarrow> posts db, u \<leftarrow> users db, p_user_id p = u_id u,
                 s \<leftarrow> series db, p_series_id p = Some (s_id s),
                 p_is_published p \<and> p_deleted_at p = None \<and> s_deleted_at s = None]"

definition has_liked :: "database \<Rightarrow> uuid \<Rightarrow> posts_row \<Rightarrow> bool" where
  "has_liked db user_uuid p \<longleftrightarrow>
     (\<exists>pl \<in> set (post_likes db). pl_post_id pl = p_id p \<and> pl_user_id pl = user_uuid)"

definition follows_creator :: "database \<Rightarrow> uuid \<Rightarrow> posts_row \<Rightarrow> bool" where
  "follows_creator db user_uuid p \<longleftrightarrow>
     (\<exists>f \<in> set (follows db). f_following_id f = p_user_id p \<and> f_follower_id f = user_uuid)"

definition feed_select :: "database \<Rightarrow> uuid \<Rightarrow> posts_row \<times> users_row \<times> series_row \<Rightarrow> feed_row" where
  "feed_select db user_uuid = (\<lambda>(p, u, s).
     \<lparr>post_id = p_id p, series_id = p_series_id p, series_title = s_title s,
      creator_id = p_user_id p, creator_name = u_display_name u,
      creator_avatar_url = u_avatar_url u, creator_verified = u_is_verified u,
      post_title = p_title p, post_content = p_content p, post_number = p_number p,
      post_thumbnail_url = p_thumbnail_url p, post_created_at = p_created_at p,
      likes_count = coalesce (p_likes_count p) 0, comments_count = coalesce (p_comments_count p) 0,
      user_has_liked = has_liked db user_uuid p\<rparr>)"

definition discovery_select ::
  "database \<Rightarrow> uuid \<Rightarrow> posts_row \<times> users_row \<times> series_row \<Rightarrow> discovery_row" where
  "discovery_select db user_uuid = (\<lambda>(p, u, s).
     \<lparr>post_id = p_id p, series_id = p_series_id p, series_title = s_title s,
      creator_id = p_user_id p, creator_name = u_display_name u,
      creator_avatar_url = u_avatar_url u, creator_verified = u_is_verified u,
      post_title = p_title p, post_content = p_content p, post_number = p_number p,
      post_thumbnail_url = p_thumbnail_url p, post_created_at = p_created_at p,
      likes_count = coalesce (p_likes_count p) 0, comments_count = coalesce (p_comments_count p) 0,
      user_has_liked = has_liked db user_uuid p,
      views_count = coalesce (p_views_count p) 0,
      user_follows_creator = follows_creator db user_uuid p\<rparr>)"

text \<open>\<^verbatim>\<open>ORDER BY p.created_at DESC\<close>, as a stable sort of the joined rows.\<close>

definition order_by_created_at_desc ::
  "(posts_row \<times> users_row \<times> series_row) list \<Rightarrow> (posts_row \<times> users_row \<times> series_row) list" where
  "order_by_created_at_desc rows = sort_key (\<lambda>(p, u, s). - p_created_at p) rows"

text \<open>
  \<^verbatim>\<open>get_discovery_feed(user_uuid, feed_limit)\<close>. The engine rejects a negative \<^verbatim>\<open>LIMIT\<close>
  and a negative \<^verbatim>\<open>OFFSET\<close> before it returns a row.
\<close>

definition get_discovery_feed :: "database \<Rightarrow> uuid \<Rightarrow> int \<Rightarrow> sql_error + discovery_row list" where
  "get_discovery_feed db user_uuid feed_limit =
     (if feed_limit < 0 then Inl Negative_limit
      else Inr (take (nat feed_limit)
                  (map (discovery_select db user_uuid)
                     (order_by_created_at_desc (published_posts db)))))"

text \<open>
  \<^verbatim>\<open>get_user_feed(user_uuid, feed_limit, feed_offset)\<close>: the same join, joined further with
  \<^verbatim>\<open>follows f ON f.following_id = p.user_id AND f.follower_id = user_uuid\<close>.
\<close>

definition followed_posts :: "database \<Rightarrow> uuid \<Rightarrow> (posts_row \<times> users_row \<times> series_row) list" where
  "followed_posts db user_uuid =
     [(p, u, s). p \<leftarrow> posts db, u \<leftarrow> users db, p_user_id p = u_id u,
                 s \<leftarrow> series db, p_series_id p = Some (s_id s),
                 f \<leftarrow> follows db, f_following_id f = p_user_id p \<and> f_follower_id f = user_uuid,
                 p_is_published p \<and> p_deleted_at p = None \<and> s_deleted_at s = None]"

definition get_user_feed :: "database \<Rightarrow> uuid \<Rightarrow> int \<Rightarrow> int \<Rightarrow> sql_error + feed_row list" where
  "get_user_feed db user_uuid feed_limit feed_offset =
     (if feed_offset < 0 then Inl Negative_offset
      else if feed_limit < 0 then Inl Negative_limit
      else Inr (take (nat feed_limit) (drop (nat feed_offset)
                  (map (feed_select db user_uuid)
                     (order_by_created_at_desc (followed_posts db user_uuid))))))"

subsection \<open>Counter triggers\<close>

text \<open>
  The engine looks an unqualified column name of an \<^verbatim>\<open>UPDATE\<close> up in the target table and
  in every table of the \<^verbatim>\<open>FROM\<close> clause. It rejects a name that more than one of them has
  (\<^verbatim>\<open>column reference is ambiguous\<close>, SQLSTATE 42702) and a name that none has (42703). The
  body of a PL/pgSQL function is analysed when a statement first runs, so such a function
  is created without complaint and fails when its trigger fires. \<open>columns\<close> lists the
  columns of the row records above.
\<close>

datatype relation =
  Users | Creator_profiles | Series | Posts | Follows | Post_likes | Post_comments
  | Supporter_transactions | Subscriptions

fun columns :: "relation \<Rightarrow> string list" where
  "columns Users = [''id'', ''display_name'', ''avatar_url'', ''is_verified'']"
| "columns Creator_profiles =
     [''user_id'', ''followers_count'', ''posts_count'', ''series_count'', ''likes_count'']"
| "columns Series = [''id'', ''user_id'', ''title'', ''posts_count'', ''deleted_at'']"
| "columns Posts =
     [''id'', ''user_id'', ''series_id'', ''title'', ''content'', ''number'', ''thumbnail_url'',
      ''created_at'', ''is_published'', ''deleted_at'', ''likes_count'', ''comments_count'',
      ''views_count'']"
| "columns Follows = [''follower_id'', ''following_id'']"
| "columns Post_likes = [''post_id'', ''user_id'']"
| "columns Post_comments = [''post_id'', ''user_id'']"
| "columns Supporter_transactions = [''id'', ''supporter_id'', ''creator_id'', ''amount'', ''status'']"
| "columns Subscriptions = [''id'', ''creator_id'', ''status'']"

definition column_ref :: "relation list \<Rightarrow> string \<Rightarrow> sql_error + relation" where
  "column_ref scope c =
     (case filter (\<lambda>r. c \<in> set (columns r)) scope of
        [] \<Rightarrow> Inl (Undefined_column c)
      | [r] \<Rightarrow> Inr r
      | r # r' # rs \<Rightarrow> Inl (Ambiguous_column c))"

text \<open>
  \<^verbatim>\<open>c + 1\<close> is null on a null counter; \<^verbatim>\<open>GREATEST(c - 1, 0)\<close> skips a null argument, so it is
  0 on a null counter.
\<close>

definition plus_one :: "int option \<Rightarrow> int option" where
  "plus_one c = map_option (\<lambda>n. n + 1) c"

definition minus_one_floor :: "int option \<Rightarrow> int option" where
  "minus_one_floor c = (case c of None \<Rightarrow> Some 0 | Some n \<Rightarrow> Some (max (n - 1) 0))"

text \<open>
  The seven \<^verbatim>\<open>UPDATE\<close> statements of the trigger functions; \<open>f\<close> is the right-hand side of
  \<^verbatim>\<open>SET\<close> as a function of the column it reads. The first is
  \<^verbatim>\<open>UPDATE posts SET likes_count = f(likes_count) WHERE id = post_id\<close>.
\<close>

definition update_posts_likes_count ::
  "(int option \<Rightarrow> int option) \<Rightarrow> uuid \<Rightarrow> database \<Rightarrow> sql_error + database" where
  "update_posts_likes_count f post_uuid db =
     (case column_ref [Posts] ''likes_count'' of
        Inl e \<Rightarrow> Inl e
      | Inr r \<Rightarrow>
          Inr (db\<lparr>posts := map (\<lambda>p. if p_id p = post_uuid
                                      then p\<lparr>p_likes_count := f (p_likes_count p)\<rparr> else p)
                              (posts db)\<rparr>))"

text \<open>
  \<^verbatim>\<open>UPDATE creator_profiles cp SET likes_count = f(likes_count) FROM posts p
  WHERE p.id = post_id AND cp.user_id = p.user_id\<close>. The name \<^verbatim>\<open>likes_count\<close> on the right
  is looked up in \<^verbatim>\<open>cp\<close> and \<^verbatim>\<open>p\<close>. \<open>set_creator_likes_count r\<close> is the update of the
  rows once the name has been found in relation \<open>r\<close>: a profile row joined with several
  posts is updated once, from the first of them.
\<close>

definition set_creator_likes_count ::
  "relation \<Rightarrow> (int option \<Rightarrow> int option) \<Rightarrow> uuid \<Rightarrow> database \<Rightarrow> database" where
  "set_creator_likes_count r f post_uuid db =
     db\<lparr>creator_profiles :=
          map (\<lambda>cp. case filter (\<lambda>p. p_id p = post_uuid \<and> cp_user_id cp = p_user_id p)
                            (posts db) of
                      [] \<Rightarrow> cp
                    | p # ps \<Rightarrow>
                        cp\<lparr>cp_likes_count :=
                             f (if r = Posts then p_likes_count p else cp_likes_count cp)\<rparr>)
              (creator_profiles db)\<rparr>"

definition update_creator_likes_count ::
  "(int option \<Rightarrow> int option) \<Rightarrow> uuid \<Rightarrow> database \<Rightarrow> sql_error + database" where
  "update_creator_likes_count f post_uuid db =
     (case column_ref [Creator_profiles, Posts] ''likes_count'' of
        Inl e \<Rightarrow> Inl e
      | Inr r \<Rightarrow> Inr (set_creator_likes_count r f post_uuid db))"

definition update_posts_comments_count ::
  "(int option \<Rightarrow> int option) \<Rightarrow> uuid \<Rightarrow> database \<Rightarrow> sql_error + database" where
  "update_posts_comments_count f post_uuid db =
     (case column_ref [Posts] ''comments_count'' of
        Inl e \<Rightarrow> Inl e
      | Inr r \<Rightarrow>
          Inr (db\<lparr>posts := map (\<lambda>p. if p_id p = post_uuid
                                      then p\<lparr>p_comments_count := f (p_comments_count p)\<rparr> else p)
                              (posts db)\<rparr>))"

definition update_creator_followers_count ::
  "(int option \<Rightarrow> int option) \<Rightarrow> uuid \<Rightarrow> database \<Rightarrow> sql_error + database" where
  "update_creator_followers_count f user_uuid db =
     (case column_ref [Creator_profiles] ''followers_count'' of
        Inl e \<Rightarrow> Inl e
      | Inr r \<Rightarrow>
          Inr (db\<lparr>creator_profiles :=
                 map (\<lambda>cp. if cp_user_id cp = user_uuid
                            then cp\<lparr>cp_followers_count := f (cp_followers_count cp)\<rparr> else cp)
                     (creator_profiles db)\<rparr>))"

definition update_series_posts_count_of ::
  "(int option \<Rightarrow> int option) \<Rightarrow> uuid option \<Rightarrow> database \<Rightarrow> sql_error + database" where
  "update_series_posts_count_of f series_uuid db =
     (case column_ref [Series] ''posts_count'' of
        Inl e \<Rightarrow> Inl e
      | Inr r \<Rightarrow>
          Inr (db\<lparr>series := map (\<lambda>s. if Some (s_id s) = series_uuid
                                       then s\<lparr>s_posts_count := f (s_posts_count s)\<rparr> else s)
                               (series db)\<rparr>))"

definition update_creator_posts_count ::
  "(int option \<Rightarrow> int option) \<Rightarrow> uuid \<Rightarrow> database \<Rightarrow> sql_error + database" where
  "update_creator_posts_count f user_uuid db =
     (case column_ref [Creator_profiles] ''posts_count'' of
        Inl e \<Rightarrow> Inl e
      | Inr r \<Rightarrow>
          Inr (db\<lparr>creator_profiles :=
                 map (\<lambda>cp. if cp_user_id cp = user_uuid
                            then cp\<lparr>cp_posts_count := f (cp_posts_count cp)\<rparr> else cp)
                     (creator_profiles db)\<rparr>))"

definition update_creator_series_count_of ::
  "(int option \<Rightarrow> int option) \<Rightarrow> uuid \<Rightarrow> database \<Rightarrow> sql_error + database" where
  "update_creator_series_count_of f user_uuid db =
     (case column_ref [Creator_profiles] ''series_count'' of
        Inl e \<Rightarrow> Inl e
      | Inr r \<Rightarrow>
          Inr (db\<lparr>creator_profiles :=
                 map (\<lambda>cp. if cp_user_id cp = user_uuid
                            then cp\<lparr>cp_series_count := f (cp_series_count cp)\<rparr> else cp)
                     (creator_profiles db)\<rparr>))"

text \<open>
  The trigger functions. Each is registered \<^verbatim>\<open>AFTER INSERT OR DELETE ... FOR EACH ROW\<close>;
  \<open>row\<close> is \<^verbatim>\<open>NEW\<close> on insert and \<^verbatim>\<open>OLD\<close> on delete, and the database passed in already has
  the row inserted or deleted. An error in a statement ends the function with that error.
\<close>

datatype tg_op = INSERT | UPDATE | DELETE | TRUNCATE

definition update_post_likes_count :: "tg_op \<Rightarrow> post_likes_row \<Rightarrow> database \<Rightarrow> sql_error + database" where
  "update_post_likes_count op row db =
     (if op = INSERT then
        (case update_posts_likes_count plus_one (pl_post_id row) db of
           Inl e \<Rightarrow> Inl e
         | Inr db1 \<Rightarrow> update_creator_likes_count plus_one (pl_post_id row) db1)
      else if op = DELETE then
        (case update_posts_likes_count minus_one_floor (pl_post_id row) db of
           Inl e \<Rightarrow> Inl e
         | Inr db1 \<Rightarrow> update_creator_likes_count minus_one_floor (pl_post_id row) db1)
      else Inr db)"

definition update_post_comments_count ::
  "tg_op \<Rightarrow> post_comments_row \<Rightarrow> database \<Rightarrow> sql_error + database" where
  "update_post_comments_count op row db =
     (if op = INSERT then update_posts_comments_count plus_one (pc_post_id row) db
      else if op = DELETE then update_posts_comments_count minus_one_floor (pc_post_id row) db
      else Inr db)"

definition update_followers_count :: "tg_op \<Rightarrow> follows_row \<Rightarrow> database \<Rightarrow> sql_error + database" where
  "update_followers_count op row db =
     (if op = INSERT then update_creator_followers_count plus_one (f_following_id row) db
      else if op = DELETE then update_creator_followers_count minus_one_floor (f_following_id row) db
      else Inr db)"

definition update_series_posts_count :: "tg_op \<Rightarrow> posts_row \<Rightarrow> database \<Rightarrow> sql_error + database" where
  "update_series_posts_count op row db =
     (if op = INSERT then
        (case update_series_posts_count_of plus_one (p_series_id row) db of
           Inl e \<Rightarrow> Inl e
         | Inr db1 \<Rightarrow> update_creator_posts_count plus_one (p_user_id row) db1)
      else if op = DELETE then
        (case update_series_posts_count_of minus_one_floor (p_series_id row) db of
           Inl e \<Rightarrow> Inl e
         | Inr db1 \<Rightarrow> update_creator_posts_count minus_one_floor (p_user_id row) db1)
      else Inr db)"

definition update_creator_series_count :: "tg_op \<Rightarrow> series_row \<Rightarrow> database \<Rightarrow> sql_error + database" where
  "update_creator_series_count op row db =
     (if op = INSERT then update_creator_series_count_of plus_one (s_user_id row) db
      else if op = DELETE then update_creator_series_count_of minus_one_floor (s_user_id row) db
      else Inr db)"

text \<open>
  Inserting one row into, or deleting one row from, a table with a counter trigger: the row
  is added or removed, then the trigger fires for it. Deleting a row that is not there
  fires nothing. When the trigger fails the statement is rolled back: \<open>committed\<close> is the
  database that is left.
\<close>

datatype statement =
    INSERT_post_likes post_likes_row | DELETE_post_likes post_likes_row
  | INSERT_post_comments post_comments_row | DELETE_post_comments post_comments_row
  | INSERT_follows follows_row | DELETE_follows follows_row
  | INSERT_posts posts_row | DELETE_posts posts_row
  | INSERT_series series_row | DELETE_series series_row

fun execute :: "statement \<Rightarrow> database \<Rightarrow> sql_error + database" where
  "execute (INSERT_post_likes r) db =
     update_post_likes_count INSERT r (db\<lparr>post_likes := post_likes db @ [r]\<rparr>)"
| "execute (DELETE_post_likes r) db =
     (if r \<in> set (post_likes db)
      then update_post_likes_count DELETE r (db\<lparr>post_likes := remove1 r (post_likes db)\<rparr>)
      else Inr db)"
| "execute (INSERT_post_comments r) db =
     update_post_comments_count INSERT r (db\<lparr>post_comments := post_comments db @ [r]\<rparr>)"
| "execute (DELETE_post_comments r) db =
     (if r \<in> set (post_comments db)
      then update_post_comments_count DELETE r (db\<lparr>post_comments := remove1 r (post_comments db)\<rparr>)
      else Inr db)"
| "execute (INSERT_follows r) db =
     update_followers_count INSERT r (db\<lparr>follows := follows db @ [r]\<rparr>)"
| "execute (DELETE_follows r) db =
     (if r \<in> set (follows db)
      then update_followers_count DELETE r (db\<lparr>follows := remove1 r (follows db)\<rparr>)
      else Inr db)"
| "execute (INSERT_posts r) db =
     update_series_posts_count INSERT r (db\<lparr>posts := posts db @ [r]\<rparr>)"
| "execute (DELETE_posts r) db =
     (if r \<in> set (posts db)
      then update_series_posts_count DELETE r (db\<lparr>posts := remove1 r (posts db)\<rparr>)
      else Inr db)"
| "execute (INSERT_series r) db =
     update_creator_series_count INSERT r (db\<lparr>series := series db @ [r]\<rparr>)"
| "execute (DELETE_series r) db =
     (if r \<in> set (series db)
      then update_creator_series_count DELETE r (db\<lparr>series := remove1 r (series db)\<rparr>)
      else Inr db)"

definition committed :: "database \<Rightarrow> sql_error + database \<Rightarrow> database" where
  "committed db res = (case res of Inl e \<Rightarrow> db | Inr db' \<Rightarrow> db')"

fun table_of :: "statement \<Rightarrow> relation" where
  "table_of (INSERT_post_likes r) = Post_likes"
| "table_of (DELETE_post_likes r) = Post_likes"
| "table_of (INSERT_post_comments r) = Post_comments"
| "table_of (DELETE_post_comments r) = Post_comments"
| "table_of (INSERT_follows r) = Follows"
| "table_of (DELETE_follows r) = Follows"
| "table_of (INSERT_posts r) = Posts"
| "table_of (DELETE_posts r) = Posts"
| "table_of (INSERT_series r) = Series"
| "table_of (DELETE_series r) = Series"

text \<open>
  The seven counters, the table each one counts, and what it is for a counter to equal the
  number of matching rows of that table, for every row that carries the counter.
\<close>

datatype counter =
    Posts_likes_count | Creator_likes_count | Posts_comments_count | Creator_followers_count
  | Series_posts_count | Creator_posts_count | Creator_series_count

fun counted_table :: "counter \<Rightarrow> relation" where
  "counted_table Posts_likes_count = Post_likes"
| "counted_table Creator_likes_count = Post_likes"
| "counted_table Posts_comments_count = Post_comments"
| "counted_table Creator_followers_count = Follows"
| "counted_table Series_posts_count = Posts"
| "counted_table Creator_posts_count = Posts"
| "counted_table Creator_series_count = Series"

definition count_where :: "('a \<Rightarrow> bool) \<Rightarrow> 'a list \<Rightarrow> int option" where
  "count_where P rows = Some (int (length (filter P rows)))"

fun in_sync :: "counter \<Rightarrow> database \<Rightarrow> bool" where
  "in_sync Posts_likes_count db =
     (\<forall>p \<in> set (posts db).
        p_likes_count p = count_where (\<lambda>l. pl_post_id l = p_id p) (post_likes db))"
| "in_sync Creator_likes_count db =
     (\<forall>cp \<in> set (creator_profiles db).
        cp_likes_count cp =
          count_where (\<lambda>l. \<exists>p \<in> set (posts db). p_id p = pl_post_id l \<and> p_user_id p = cp_user_id cp)
            (post_likes db))"
| "in_sync Posts_comments_count db =
     (\<forall>p \<in> set (posts db).
        p_comments_count p = count_where (\<lambda>c. pc_post_id c = p_id p) (post_comments db))"
| "in_sync Creator_followers_count db =
     (\<forall>cp \<in> set (creator_profiles db).
        cp_followers_count cp = count_where (\<lambda>f. f_following_id f = cp_user_id cp) (follows db))"
| "in_sync Series_posts_count db =
     (\<forall>s \<in> set (series db).
        s_posts_count s = count_where (\<lambda>p. p_series_id p = Some (s_id s)) (posts db))"
| "in_sync Creator_posts_count db =
     (\<forall>cp \<in> set (creator_profiles db).
        cp_posts_count cp = count_where (\<lambda>p. p_user_id p = cp_user_id cp) (posts db))"
| "in_sync Creator_series_count db =
     (\<forall>cp \<in> set (creator_profiles db).
        cp_series_count cp = count_where (\<lambda>s. s_user_id s = cp_user_id cp) (series db))"

subsection \<open>Creator statistics\<close>

record creator_stats =
  total_earnings :: rat
  total_supporters :: int
  active_subscriptions :: int
  total_posts :: int
  total_series :: int
  total_followers :: int
  total_likes :: int
  total_comments :: int

text \<open>
  \<^verbatim>\<open>xs LEFT JOIN ys ON on\<close>: every row of \<open>xs\<close> with each matching row of \<open>ys\<close>, or once with
  nulls when none matches.
\<close>

definition left_join :: "'a list \<Rightarrow> ('a \<Rightarrow> 'b \<Rightarrow> bool) \<Rightarrow> 'b list \<Rightarrow> ('a \<times> 'b option) list" where
  "left_join xs on ys =
     concat (map (\<lambda>x. case filter (on x) ys of
                         [] \<Rightarrow> [(x, None)]
                       | m # ms \<Rightarrow> map (\<lambda>y. (x, Some y)) (m # ms)) xs)"

type_synonym stats_row =
  "((((users_row \<times> creator_profiles_row option) \<times> supporter_transactions_row option)
      \<times> subscriptions_row option) \<times> posts_row option) \<times> series_row option"

text \<open>The \<^verbatim>\<open>FROM\<close> clause of \<^verbatim>\<open>get_creator_stats\<close> with its \<^verbatim>\<open>WHERE u.id = creator_uuid\<close>.\<close>

definition stats_join :: "database \<Rightarrow> uuid \<Rightarrow> stats_row list" where
  "stats_join db creator_uuid =
     filter (\<lambda>(((((u, cp), st), sub), p), s). u_id u = creator_uuid)
       (left_join
         (left_join
           (left_join
             (left_join
               (left_join (users db) (\<lambda>u cp. u_id u = cp_user_id cp) (creator_profiles db))
               (\<lambda>(u, cp) st. u_id u = st_creator_id st) (supporter_transactions db))
             (\<lambda>((u, cp), st) sub. u_id u = sub_creator_id sub) (subscriptions db))
           (\<lambda>(((u, cp), st), sub) p. u_id u = p_user_id p \<and> p_deleted_at p = None) (posts db))
         (\<lambda>((((u, cp), st), sub), p) s. u_id u = s_user_id s \<and> s_deleted_at s = None) (series db))"

text \<open>\<^verbatim>\<open>GROUP BY u.id, cp.followers_count, cp.likes_count\<close>; nulls fall into one group.\<close>

definition stats_key :: "stats_row \<Rightarrow> uuid \<times> int option \<times> int option" where
  "stats_key = (\<lambda>(((((u, cp), st), sub), p), s).
     (u_id u, Option.bind cp cp_followers_count, Option.bind cp cp_likes_count))"

definition group_by :: "('a \<Rightarrow> 'k) \<Rightarrow> 'a list \<Rightarrow> 'a list list" where
  "group_by key rows = map (\<lambda>k. filter (\<lambda>r. key r = k) rows) (remdups (map key rows))"

text \<open>\<^verbatim>\<open>COUNT(DISTINCT e)\<close> and \<^verbatim>\<open>COALESCE(SUM(e), 0)\<close> over the values of \<open>e\<close> in a group.\<close>

definition count_distinct :: "'a option list \<Rightarrow> int" where
  "count_distinct vs = int (length (remdups [the v. v \<leftarrow> vs, v \<noteq> None]))"

definition sum_or_zero :: "'a::monoid_add option list \<Rightarrow> 'a" where
  "sum_or_zero vs = sum_list [the v. v \<leftarrow> vs, v \<noteq> None]"

definition stats_of_group :: "stats_row list \<Rightarrow> creator_stats" where
  "stats_of_group g =
     \<lparr>total_earnings =
        sum_or_zero (map (\<lambda>(((((u, cp), st), sub), p), s).
          (case st of
             Some t \<Rightarrow> if st_status t = ''completed'' then Some (st_amount t) else Some 0
           | None \<Rightarrow> Some 0)) g),
      total_supporters =
        count_distinct (map (\<lambda>(((((u, cp), st), sub), p), s). map_option st_supporter_id st) g),
      active_subscriptions =
        count_distinct (map (\<lambda>(((((u, cp), st), sub), p), s).
          (case sub of
             Some b \<Rightarrow> if sub_status b = ''active'' then Some (sub_id b) else None
           | None \<Rightarrow> None)) g),
      total_posts = count_distinct (map (\<lambda>(((((u, cp), st), sub), p), s). map_option p_id p) g),
      total_series = count_distinct (map (\<lambda>(((((u, cp), st), sub), p), s). map_option s_id s) g),
      total_followers =
        coalesce (Option.bind (snd (fst (fst (fst (fst (hd g)))))) cp_followers_count) 0,
      total_likes = coalesce (Option.bind (snd (fst (fst (fst (fst (hd g)))))) cp_likes_count) 0,
      total_comments =
        sum_or_zero (map (\<lambda>(((((u, cp), st), sub), p), s). Option.bind p p_comments_count) g)\<rparr>"

definition get_creator_stats :: "database \<Rightarrow> uuid \<Rightarrow> creator_stats list" where
  "get_creator_stats db creator_uuid =
     map stats_of_group (group_by stats_key (stats_join db creator_uuid))"

text \<open>
  What the earnings of a creator are said to be: the sum of the amounts of the creator's
  transactions whose status is \<^verbatim>\<open>completed\<close>, each counted once.
\<close>

definition completed_earnings :: "database \<Rightarrow> uuid \<Rightarrow> rat" where
  "completed_earnings db creator_uuid =
     sum_list [st_amount t. t \<leftarrow> supporter_transactions db,
                 st_creator_id t = creator_uuid \<and> st_status t = ''completed'']"

subsection \<open>An example database\<close>

text \<open>
  Two creators and a reader 3 who follows creator 1. Posts 100 and 101 are published in the
  live series 10; post 102 is a draft, post 103 belongs to a deleted series and post 104 to
  no series.
\<close>

definition mk_post :: "uuid \<Rightarrow> uuid \<Rightarrow> uuid option \<Rightarrow> timestamptz \<Rightarrow> bool \<Rightarrow> posts_row" where
  "mk_post i owner sid t pub =
     \<lparr>p_id = i, p_user_id = owner, p_series_id = sid, p_title = ''t'', p_content = ''c'',
      p_number = 1, p_thumbnail_url = None, p_created_at = t, p_is_published = pub,
      p_deleted_at = None, p_likes_count = Some 0, p_comments_count = Some 0,
      p_views_count = None\<rparr>"

definition example_db :: database where
  "example_db =
     \<lparr>users = [\<lparr>u_id = 1, u_display_name = ''Asha'', u_avatar_url = None, u_is_verified = True\<rparr>,
               \<lparr>u_id = 2, u_display_name = ''Bina'', u_avatar_url = None, u_is_verified = False\<rparr>],
      creator_profiles = [],
      series = [\<lparr>s_id = 10, s_user_id = 1, s_title = ''Notes'', s_posts_count = Some 3,
                 s_deleted_at = None\<rparr>,
                \<lparr>s_id = 11, s_user_id = 2, s_title = ''Old'', s_posts_count = Some 1,
                 s_deleted_at = Some 4\<rparr>],
      posts = [mk_post 100 1 (Some 10) 5 True, mk_post 101 1 (Some 10) 9 True,
               mk_post 102 1 (Some 10) 7 False, mk_post 103 2 (Some 11) 8 True,
               mk_post 104 2 None 10 True],
      follows = [\<lparr>f_follower_id = 3, f_following_id = 1\<rparr>],
      post_likes = [], post_comments = [], supporter_transactions = [], subscriptions = []\<rparr>"

text \<open>
  Creator 1 with a profile, one follower, two live posts and one completed transaction of
  100 from supporter 3; every counter of the profile and of the posts equals its row count.
\<close>

definition creator_db :: database where
  "creator_db =
     \<lparr>users = [\<lparr>u_id = 1, u_display_name = ''Asha'', u_avatar_url = None, u_is_verified = True\<rparr>],
      creator_profiles = [\<lparr>cp_user_id = 1, cp_followers_count = Some 1, cp_posts_count = Some 2,
                           cp_series_count = Some 0, cp_likes_count = Some 0\<rparr>],
      series = [],
      posts = [mk_post 100 1 None 5 True, mk_post 101 1 None 9 True],
      follows = [\<lparr>f_follower_id = 3, f_following_id = 1\<rparr>],
      post_likes = [], post_comments = [],
      supporter_transactions = [\<lparr>st_id = 1, st_supporter_id = 3, st_creator_id = 1,
                                 st_amount = 100, st_status = ''completed''\<rparr>],
      subscriptions = []\<rparr>"

text \<open>
  \<open>creator_db\<close> as the likes trigger leaves it when it stops on the like of post 100 by
  reader 3: the like is in \<^verbatim>\<open>post_likes\<close> and the first \<^verbatim>\<open>UPDATE\<close> has counted it on the
  post.
\<close>

definition like_in_flight :: database where
  "like_in_flight =
     creator_db\<lparr>post_likes := [\<lparr>pl_post_id = 100, pl_user_id = 3\<rparr>],
                posts := [(mk_post 100 1 None 5 True)\<lparr>p_likes_count := Some 1\<rparr>,
                          mk_post 101 1 None 9 True]\<rparr>"

section \<open>The slug of the post form\<close>

lemma set_replace_runs: "set (replace_runs P r xs) \<subseteq> {x \<in> set xs. \<not> P x} \<union> {r}"
proof (induction P r xs rule: replace_runs.induct)
  case (1 P r)
  then show ?case by simp
next
  case (2 P r c cs)
  have "set (dropWhile P cs) \<subseteq> set cs"
    by (simp add: set_dropWhileD subsetI)
  with 2 show ?case by (auto split: if_splits)
qed

lemma hd_replace_runs:
  "xs \<noteq> [] \<Longrightarrow> replace_runs P r xs \<noteq> [] \<and> hd (replace_runs P r xs) = (if P (hd xs) then r else hd xs)"
  by (cases xs) auto

lemma replace_runs_no_double_gen:
  "(\<And>x. P x \<longleftrightarrow> x = r) \<Longrightarrow> \<not> sublist [r, r] (replace_runs P r xs)"
proof (induction P r xs rule: replace_runs.induct)
  case (1 P r)
  then show ?case by simp
next
  case (2 P r c cs)
  show ?case
  proof (cases "P c")
    case True
    let ?zs = "dropWhile P cs"
    have "\<not> prefix [r] (replace_runs P r ?zs)"
    proof (cases "?zs = []")
      case True
      have "replace_runs P r ?zs = []" unfolding True by simp
      then show ?thesis by (simp only: prefix_Nil) simp
    next
      case False
      then have "\<not> P (hd ?zs)" using hd_dropWhile [of P cs] by simp
      with False hd_replace_runs [of ?zs P r] "2.prems"
      have "replace_runs P r ?zs \<noteq> [] \<and> hd (replace_runs P r ?zs) \<noteq> r"
        by simp
      then show ?thesis by (cases "replace_runs P r ?zs") auto
    qed
    then have np: "\<not> prefix [r, r] (r # replace_runs P r ?zs)" by simp
    from "2.IH"(1) [OF True "2.prems"]
    have ih: "\<not> sublist [r, r] (replace_runs P r ?zs)" .
    have eq: "replace_runs P r (c # cs) = r # replace_runs P r ?zs" using True by simp
    show ?thesis unfolding eq sublist_Cons_right using ih np by blast
  next
    case False
    then have "c \<noteq> r" using "2.prems" by simp
    then have np: "\<not> prefix [r, r] (c # replace_runs P r cs)" by simp
    from "2.IH"(2) [OF False "2.prems"]
    have ih: "\<not> sublist [r, r] (replace_runs P r cs)" .
    have eq: "replace_runs P r (c # cs) = c # replace_runs P r cs" using False by simp
    show ?thesis unfolding eq sublist_Cons_right using ih np by blast
  qed
qed

lemma replace_runs_no_double: "\<not> sublist [h, h] (replace_runs (\<lambda>c. c = h) h xs)"
  by (rule replace_runs_no_double_gen) simp

lemma trim_sublist: "sublist (trim s) s"
proof -
  have "prefix (trim s) (dropWhile is_space s)"
    unfolding trim_def by (metis suffix_dropWhile suffix_to_prefix rev_rev_ident)
  moreover have "suffix (dropWhile is_space s) s" by (rule suffix_dropWhile)
  ultimately show ?thesis
    by (meson prefix_imp_sublist suffix_imp_sublist sublist_order.order_trans)
qed

lemma slug_units: "set (handleSubmit_slug lc title) \<subseteq> {c. slug_unit c}"
proof -
  let ?a = "strip_other (lc title)"
  let ?b = "replace_runs is_space hyphen ?a"
  let ?c = "replace_runs (\<lambda>c. c = hyphen) hyphen ?b"
  have a: "set ?a \<subseteq> {c. slug_unit c \<or> is_space c}"
    by (auto simp: strip_other_def slug_unit_def)
  have "set ?b \<subseteq> {x \<in> set ?a. \<not> is_space x} \<union> {hyphen}" by (rule set_replace_runs)
  with a have b: "set ?b \<subseteq> {c. slug_unit c}" by (auto simp: slug_unit_def)
  have "set ?c \<subseteq> {x \<in> set ?b. x \<noteq> hyphen} \<union> {hyphen}" by (rule set_replace_runs)
  with b have c: "set ?c \<subseteq> {c. slug_unit c}" by (auto simp: slug_unit_def)
  have "set (trim ?c) \<subseteq> set ?c" by (rule set_mono_sublist [OF trim_sublist])
  with c show ?thesis by (simp add: handleSubmit_slug_def)
qed

text \<open>
  C9: for every title (and whatever the engine's lowercasing does to it), every code unit of
  the slug is a lowercase ASCII letter, a digit or a hyphen, and the slug nowhere holds two
  hyphens next to each other.
\<close>

theorem slug_charset_no_double_hyphen:
  "(\<forall>c \<in> set (handleSubmit_slug lc title). is_lower_az c \<or> is_digit09 c \<or> c = hyphen)
   \<and> \<not> sublist [hyphen, hyphen] (handleSubmit_slug lc title)"
proof
  show "\<forall>c \<in> set (handleSubmit_slug lc title). is_lower_az c \<or> is_digit09 c \<or> c = hyphen"
    using slug_units [of lc title] by (auto simp: slug_unit_def)
next
  have "\<not> sublist [hyphen, hyphen]
          (replace_runs (\<lambda>c. c = hyphen) hyphen
             (replace_runs is_space hyphen (strip_other (lc title))))"
    by (rule replace_runs_no_double)
  then show "\<not> sublist [hyphen, hyphen] (handleSubmit_slug lc title)"
    unfolding handleSubmit_slug_def
    by (meson trim_sublist sublist_order.order_trans)
qed

lemma slug_example:
  "handleSubmit_slug ascii_lower (js '' My  Post -- 1! '') = js ''-my-post-1-''"
  by (simp add: handleSubmit_slug_def ascii_lower_def js_def strip_other_def trim_def
        hyphen_def is_space_def is_lower_az_def is_digit09_def)

theorem slug_charset_no_double_hyphen_witness:
  "handleSubmit_slug ascii_lower (js '' My  Post -- 1! '') = js ''-my-post-1-''
   \<and> list_all (\<lambda>c. is_lower_az c \<or> is_digit09 c \<or> c = hyphen) (js ''-my-post-1-'')
   \<and> \<not> sublist [hyphen, hyphen] (js ''-my-post-1-'')"
  using slug_charset_no_double_hyphen [of ascii_lower "js '' My  Post -- 1! ''"]
  unfolding slug_example by (simp add: list_all_iff)

section \<open>The cleanup script runs only when confirmed\<close>

lemma probes_append: "probes (a @ b) = probes a @ probes b"
  by (induction a rule: probes.induct) auto

lemma removals_append: "removals (a @ b) = removals a @ removals b"
  by (induction a rule: removals.induct) auto

lemma removeRecursive_trace:
  assumes "removeRecursive api p w = (res, w')"
  shows "\<exists>new. trace w' = trace w @ new \<and> probes new = [p] \<and> call_path ` set new \<subseteq> {p}
           \<and> (res = Inr True \<longrightarrow> removals new = [p]) \<and> (res = Inr False \<longrightarrow> removals new = [])"
  using assms
  by (auto simp: removeRecursive_def called_def Let_def
      split: if_splits sum.splits prod.splits option.splits)

lemma removeRecursive_total:
  "never_throws api \<Longrightarrow> \<exists>b. fst (removeRecursive api p w) = Inr b"
  unfolding never_throws_def removeRecursive_def Let_def
  apply (auto split: if_splits sum.splits prod.splits option.splits)
   apply (metis Inl_Inr_False)
  apply (metis fst_conv option.distinct(1))+
  done

lemma remove_items_trace:
  "remove_items api cwd items (r, s) w = (res, w') \<Longrightarrow>
     \<exists>new. trace w' = trace w @ new
       \<and> prefix (probes new) (map (path_join api cwd) items)
       \<and> call_path ` set new \<subseteq> set (map (path_join api cwd) items)
       \<and> (\<forall>r' s'. res = Inr (r', s') \<longrightarrow>
             r' + s' = r + s + length items \<and> probes new = map (path_join api cwd) items
             \<and> r' = r + length (removals new))"
proof (induction items arbitrary: r s w)
  case Nil
  then show ?case by auto
next
  case (Cons item rest)
  obtain q w1 where q: "removeRecursive api (path_join api cwd item) w = (q, w1)"
    by (cases "removeRecursive api (path_join api cwd item) w")
  from removeRecursive_trace [OF q] obtain n1 where
    n1: "trace w1 = trace w @ n1" "probes n1 = [path_join api cwd item]"
        "call_path ` set n1 \<subseteq> {path_join api cwd item}"
        "q = Inr True \<longrightarrow> removals n1 = [path_join api cwd item]"
        "q = Inr False \<longrightarrow> removals n1 = []"
    by blast
  show ?case
  proof (cases q)
    case (Inl e)
    with Cons.prems q have "res = Inl e" "w' = w1" by auto
    with n1 show ?thesis by (intro exI [of _ n1]) auto
  next
    case (Inr b)
    let ?r = "if b then r + 1 else r" and ?s = "if b then s else s + 1"
    from Cons.prems q Inr have "remove_items api cwd rest (?r, ?s) w1 = (res, w')"
      by (auto split: if_splits)
    from Cons.IH [OF this] obtain n2 where
      n2: "trace w' = trace w1 @ n2"
          "prefix (probes n2) (map (path_join api cwd) rest)"
          "call_path ` set n2 \<subseteq> set (map (path_join api cwd) rest)"
          "\<forall>r' s'. res = Inr (r', s') \<longrightarrow>
             r' + s' = ?r + ?s + length rest \<and> probes n2 = map (path_join api cwd) rest
             \<and> r' = ?r + length (removals n2)"
      by blast
    have rem: "length (removals n1) = (if b then 1 else 0)"
      using n1(4,5) Inr by (cases b) auto
    show ?thesis
      apply (intro exI [of _ "n1 @ n2"])
      using n1(1,2,3) n2 rem
      by (auto simp: probes_append removals_append)
  qed
qed

lemma remove_items_total:
  "never_throws api \<Longrightarrow> \<exists>c. fst (remove_items api cwd items counts w) = Inr c"
proof (induction items arbitrary: counts w)
  case Nil
  then show ?case by simp
next
  case (Cons item rest)
  obtain r s where c: "counts = (r, s)" by (cases counts)
  obtain q w1 where q: "removeRecursive api (path_join api cwd item) w = (q, w1)"
    by (cases "removeRecursive api (path_join api cwd item) w")
  with removeRecursive_total [OF Cons.prems, of "path_join api cwd item" w]
  obtain b where "q = Inr b" by auto
  with q c Cons.IH [OF Cons.prems] show ?case by simp
qed

lemma never_throws_flat_api: "never_throws flat_api"
  by (auto simp add: never_throws_def flat_api_def)

lemma main_declined:
  "main flat_api ascii_lower (js ''/repo'') (js ''no'') repo_files
     = (Cancelled, \<lparr>fsys = repo_files, trace = []\<rparr>)"
  by (simp add: main_def promptUser_def ascii_lower_def js_def)

lemma main_confirmed:
  "main flat_api ascii_lower (js ''/repo'') (js ''YES'') repo_files
     = (Completed 2 4,
        \<lparr>fsys = [js ''/repo/README.md''],
         trace = [ExistsSync (js ''/repo/backend''), StatSync (js ''/repo/backend''),
                  UnlinkSync (js ''/repo/backend''),
                  ExistsSync (js ''/repo/clients/ts-sdk''),
                  ExistsSync (js ''/repo/clients/ts-sdk-tests''),
                  ExistsSync (js ''/repo/Cargo.toml''), StatSync (js ''/repo/Cargo.toml''),
                  UnlinkSync (js ''/repo/Cargo.toml''),
                  ExistsSync (js ''/repo/Cargo.lock''),
                  ExistsSync (js ''/repo/docker-compose.yml'')]\<rparr>)"
  by (simp add: main_def promptUser_def ascii_lower_def js_def itemsToRemove_def
        removeRecursive_def called_def flat_api_def repo_files_def)

lemma removeRecursive_throws_iff:
  "fst (removeRecursive api p w) = Inl e \<longleftrightarrow>
     existsSync api p (fsys w)
     \<and> (statSync_isDirectory api p (fsys w) = Inl e
        \<or> (statSync_isDirectory api p (fsys w) = Inr True \<and> fst (rmSync api p (fsys w)) = Some e)
        \<or> (statSync_isDirectory api p (fsys w) = Inr False \<and> fst (unlinkSync api p (fsys w)) = Some e))"
  by (auto simp: removeRecursive_def called_def Let_def
      split: if_splits sum.splits prod.splits option.splits)

lemma remove_items_append:
  "remove_items api cwd (xs @ ys) c w =
     (case remove_items api cwd xs c w of
        (Inl e, w') \<Rightarrow> (Inl e, w')
      | (Inr c', w') \<Rightarrow> remove_items api cwd ys c' w')"
proof (induction xs arbitrary: c w)
  case Nil
  then show ?case by simp
next
  case (Cons x xs)
  obtain r s where c: "c = (r, s)" by (cases c)
  show ?case
    unfolding c by (auto simp: Cons.IH split: prod.splits sum.splits)
qed

lemma remove_items_stops_at_throw:
  assumes k: "k < length items"
    and pre: "remove_items api cwd (take k items) c w = (Inr ck, wk)"
    and thr: "removeRecursive api (path_join api cwd (items ! k)) wk = (Inl e, w')"
  shows "remove_items api cwd items c w = (Inl e, w')"
proof -
  have "items = take k items @ (items ! k # drop (Suc k) items)"
    using k by (simp add: id_take_nth_drop)
  then have "remove_items api cwd items c w =
               remove_items api cwd (take k items @ (items ! k # drop (Suc k) items)) c w"
    by simp
  also have "\<dots> = remove_items api cwd (items ! k # drop (Suc k) items) ck wk"
    by (simp only: remove_items_append pre prod.case sum.case)
  also have "\<dots> = (Inl e, w')"
    using thr by (cases ck) simp
  finally show ?thesis .
qed

lemma remove_items_failure_origin:
  "remove_items api cwd items c w = (Inl e, w') \<Longrightarrow>
     \<exists>k ck wk. k < length items
       \<and> remove_items api cwd (take k items) c w = (Inr ck, wk)
       \<and> removeRecursive api (path_join api cwd (items ! k)) wk = (Inl e, w')"
proof (induction items arbitrary: c w)
  case Nil
  then show ?case by simp
next
  case (Cons item rest)
  obtain r s where c: "c = (r, s)" by (cases c)
  obtain q w1 where q: "removeRecursive api (path_join api cwd item) w = (q, w1)"
    by (cases "removeRecursive api (path_join api cwd item) w")
  show ?case
  proof (cases q)
    case (Inl e')
    with Cons.prems q c have "e' = e" "w1 = w'" by auto
    with q Inl show ?thesis by (intro exI [of _ 0] exI [of _ c] exI [of _ w]) simp
  next
    case (Inr b)
    let ?c = "if b then (r + 1, s) else (r, s + 1)"
    from Cons.prems q c Inr have "remove_items api cwd rest ?c w1 = (Inl e, w')" by simp
    from Cons.IH [OF this] obtain k ck wk where
      kk: "k < length rest" "remove_items api cwd (take k rest) ?c w1 = (Inr ck, wk)"
          "removeRecursive api (path_join api cwd (rest ! k)) wk = (Inl e, w')"
      by blast
    then show ?thesis
      using q c Inr by (intro exI [of _ "Suc k"] exI [of _ ck] exI [of _ wk]) simp
  qed
qed

lemma throw_probes:
  assumes k: "k < length items"
    and pre: "remove_items api cwd (take k items) (r, s) w = (Inr ck, wk)"
    and thr: "removeRecursive api (path_join api cwd (items ! k)) wk = (Inl e, w')"
  shows "\<exists>new. trace w' = trace w @ new
           \<and> probes new = map (path_join api cwd) (take (Suc k) items)"
proof -
  obtain r' s' where ck: "ck = (r', s')" by (cases ck)
  from remove_items_trace [OF pre [unfolded ck]] obtain n1 where
    n1: "trace wk = trace w @ n1" "probes n1 = map (path_join api cwd) (take k items)"
    by auto
  from removeRecursive_trace [OF thr] obtain n2 where
    n2: "trace w' = trace wk @ n2" "probes n2 = [path_join api cwd (items ! k)]"
    by blast
  have "take (Suc k) items = take k items @ [items ! k]"
    using k by (rule take_Suc_conv_app_nth)
  then have p: "map (path_join api cwd) (take (Suc k) items) = probes n1 @ probes n2"
    by (simp only: n1(2) n2(2) map_append list.map)
  have t: "trace w' = trace w @ (n1 @ n2)"
    by (simp only: n2(1) n1(1) append_assoc)
  show ?thesis
    by (rule exI [of _ "n1 @ n2"]) (simp only: t p probes_append simp_thms)
qed



lemma main_confirmed_result:
  assumes "promptUser lc answer = js ''yes''"
  shows "main api lc cwd answer fs0 =
           (case fst (remove_items api cwd itemsToRemove (0, 0) \<lparr>fsys = fs0, trace = []\<rparr>) of
              Inl e \<Rightarrow> Exit_failure e
            | Inr (r, s) \<Rightarrow> Completed r s,
            snd (remove_items api cwd itemsToRemove (0, 0) \<lparr>fsys = fs0, trace = []\<rparr>))"
  using assms by (simp add: main_def split: sum.splits prod.splits)

lemma main_stops_at_throw:
  assumes y: "promptUser lc answer = js ''yes''"
    and k: "k < length itemsToRemove"
    and pre: "remove_items api cwd (take k itemsToRemove) (0, 0) \<lparr>fsys = fs0, trace = []\<rparr>
                = (Inr ck, wk)"
    and thr: "removeRecursive api (path_join api cwd (itemsToRemove ! k)) wk = (Inl e, w')"
  shows "main api lc cwd answer fs0 = (Exit_failure e, w')"
    and "probes (trace w') = map (path_join api cwd) (take (Suc k) itemsToRemove)"
proof -
  have "remove_items api cwd itemsToRemove (0, 0) \<lparr>fsys = fs0, trace = []\<rparr> = (Inl e, w')"
    by (rule remove_items_stops_at_throw [OF k pre thr])
  then show "main api lc cwd answer fs0 = (Exit_failure e, w')"
    by (simp add: main_confirmed_result [OF y])
  from throw_probes [OF k pre thr] obtain new where
    "trace w' = trace \<lparr>fsys = fs0, trace = []\<rparr> @ new"
    "probes new = map (path_join api cwd) (take (Suc k) itemsToRemove)"
    by blast
  then show "probes (trace w') = map (path_join api cwd) (take (Suc k) itemsToRemove)"
    by simp
qed


lemma main_failure_origin:
  assumes y: "promptUser lc answer = js ''yes''"
    and f: "fst (main api lc cwd answer fs0) = Exit_failure e"
  shows "\<exists>k ck wk. k < length itemsToRemove
          \<and> remove_items api cwd (take k itemsToRemove) (0, 0) \<lparr>fsys = fs0, trace = []\<rparr>
              = (Inr ck, wk)
          \<and> removeRecursive api (path_join api cwd (itemsToRemove ! k)) wk
              = (Inl e, snd (main api lc cwd answer fs0))"
proof -
  let ?w0 = "\<lparr>fsys = fs0, trace = []\<rparr>"
  obtain res w where rw: "remove_items api cwd itemsToRemove (0, 0) ?w0 = (res, w)"
    by (cases "remove_items api cwd itemsToRemove (0, 0) ?w0")
  have m: "main api lc cwd answer fs0 =
            (case res of Inl e \<Rightarrow> Exit_failure e | Inr (r, s) \<Rightarrow> Completed r s, w)"
    using rw by (simp add: main_confirmed_result [OF y])
  from f m have "res = Inl e" by (cases res) (auto split: prod.splits)
  with rw have "remove_items api cwd itemsToRemove (0, 0) ?w0 = (Inl e, w)" by simp
  from remove_items_failure_origin [OF this] obtain k ck wk where
    "k < length itemsToRemove"
    "remove_items api cwd (take k itemsToRemove) (0, 0) ?w0 = (Inr ck, wk)"
    "removeRecursive api (path_join api cwd (itemsToRemove ! k)) wk = (Inl e, w)"
    by blast
  moreover have "snd (main api lc cwd answer fs0) = w" using m by simp
  ultimately show ?thesis by blast
qed



lemma cleanup_trace_and_counts:
  "(promptUser lc answer \<noteq> js ''yes'' \<longrightarrow>
      main api lc cwd answer fs0 = (Cancelled, \<lparr>fsys = fs0, trace = []\<rparr>))
   \<and> (promptUser lc answer = js ''yes'' \<longrightarrow>
        prefix (probes (trace (snd (main api lc cwd answer fs0))))
          (map (path_join api cwd) itemsToRemove)
        \<and> call_path ` set (trace (snd (main api lc cwd answer fs0)))
            \<subseteq> set (map (path_join api cwd) itemsToRemove)
        \<and> (\<forall>r s. fst (main api lc cwd answer fs0) = Completed r s \<longrightarrow>
              r + s = 6
              \<and> probes (trace (snd (main api lc cwd answer fs0)))
                  = map (path_join api cwd) itemsToRemove
              \<and> r = length (removals (trace (snd (main api lc cwd answer fs0)))))
        \<and> fst (main api lc cwd answer fs0) \<noteq> Cancelled
        \<and> (never_throws api \<longrightarrow> (\<exists>r s. fst (main api lc cwd answer fs0) = Completed r s)))"
proof (intro conjI impI)
  assume "promptUser lc answer \<noteq> js ''yes''"
  then show "main api lc cwd answer fs0 = (Cancelled, \<lparr>fsys = fs0, trace = []\<rparr>)"
    by (simp add: main_def)
next
  assume y: "promptUser lc answer = js ''yes''"
  let ?w0 = "\<lparr>fsys = fs0, trace = []\<rparr>"
  obtain res w where rw: "remove_items api cwd itemsToRemove (0, 0) ?w0 = (res, w)"
    by (cases "remove_items api cwd itemsToRemove (0, 0) ?w0")
  from remove_items_trace [OF rw] obtain new where
    new: "trace w = new"
         "prefix (probes new) (map (path_join api cwd) itemsToRemove)"
         "call_path ` set new \<subseteq> set (map (path_join api cwd) itemsToRemove)"
         "\<forall>r' s'. res = Inr (r', s') \<longrightarrow>
             r' + s' = length itemsToRemove \<and> probes new = map (path_join api cwd) itemsToRemove
             \<and> r' = length (removals new)"
    by auto
  have six: "length itemsToRemove = 6" by (simp add: itemsToRemove_def)
  have m: "main api lc cwd answer fs0 =
            (case res of Inl e \<Rightarrow> Exit_failure e | Inr (r, s) \<Rightarrow> Completed r s, w)"
    using y rw by (simp add: main_def split: sum.splits prod.splits)
  show "prefix (probes (trace (snd (main api lc cwd answer fs0))))
          (map (path_join api cwd) itemsToRemove)"
    using new m by simp
  show "call_path ` set (trace (snd (main api lc cwd answer fs0)))
          \<subseteq> set (map (path_join api cwd) itemsToRemove)"
    using new m by simp
  show "\<forall>r s. fst (main api lc cwd answer fs0) = Completed r s \<longrightarrow>
              r + s = 6
              \<and> probes (trace (snd (main api lc cwd answer fs0)))
                  = map (path_join api cwd) itemsToRemove
              \<and> r = length (removals (trace (snd (main api lc cwd answer fs0))))"
    using new m six by (auto split: sum.splits prod.splits)
  show "fst (main api lc cwd answer fs0) \<noteq> Cancelled"
    using m by (auto split: sum.splits prod.splits)
  show "\<exists>r s. fst (main api lc cwd answer fs0) = Completed r s" if "never_throws api"
    using remove_items_total [OF that, of cwd itemsToRemove "(0, 0)" ?w0] rw m
    by (auto split: sum.splits prod.splits)
qed



text \<open>
  C10, as the code has it: any answer whose lowercase form is not \<^verbatim>\<open>yes\<close> ends the script
  with no \<^verbatim>\<open>fs\<close> call at all and the file system as it was. A confirmed run probes the six
  joined paths in order, as far as it gets, and calls \<^verbatim>\<open>fs\<close> on no other path; when it
  completes, all six were probed, removed plus skipped is six and removed counts the removal
  calls; it completes whenever no \<^verbatim>\<open>fs\<close> call throws. When the items before the \<open>k\<close>-th
  were processed and \<^verbatim>\<open>removeRecursive\<close> throws on the \<open>k\<close>-th, the run ends there: the
  outcome is the exit with status 1 carrying the thrown message and no counts, the world is
  the one the throwing call left, and exactly the first \<open>k + 1\<close> paths were probed; an exit
  with status 1 arises in no other way. \<^verbatim>\<open>removeRecursive\<close> throws exactly when the path
  exists and \<^verbatim>\<open>statSync\<close> throws, or the removal that the kind of the path selects throws.
\<close>

theorem cleanup_runs_only_when_confirmed:
  "(promptUser lc answer \<noteq> js ''yes'' \<longrightarrow>
      main api lc cwd answer fs0 = (Cancelled, \<lparr>fsys = fs0, trace = []\<rparr>))
   \<and> (promptUser lc answer = js ''yes'' \<longrightarrow>
        prefix (probes (trace (snd (main api lc cwd answer fs0))))
          (map (path_join api cwd) itemsToRemove)
        \<and> call_path ` set (trace (snd (main api lc cwd answer fs0)))
            \<subseteq> set (map (path_join api cwd) itemsToRemove)
        \<and> (\<forall>r s. fst (main api lc cwd answer fs0) = Completed r s \<longrightarrow>
              r + s = 6
              \<and> probes (trace (snd (main api lc cwd answer fs0)))
                  = map (path_join api cwd) itemsToRemove
              \<and> r = length (removals (trace (snd (main api lc cwd answer fs0)))))
        \<and> fst (main api lc cwd answer fs0) \<noteq> Cancelled
        \<and> (never_throws api \<longrightarrow> (\<exists>r s. fst (main api lc cwd answer fs0) = Completed r s))
        \<and> (\<forall>k ck wk e w'.
              k < length itemsToRemove
              \<and> remove_items api cwd (take k itemsToRemove) (0, 0) \<lparr>fsys = fs0, trace = []\<rparr>
                  = (Inr ck, wk)
              \<and> removeRecursive api (path_join api cwd (itemsToRemove ! k)) wk = (Inl e, w')
              \<longrightarrow> main api lc cwd answer fs0 = (Exit_failure e, w')
                  \<and> probes (trace w') = map (path_join api cwd) (take (Suc k) itemsToRemove))
        \<and> (\<forall>e. fst (main api lc cwd answer fs0) = Exit_failure e \<longrightarrow>
              (\<exists>k ck wk. k < length itemsToRemove
                 \<and> remove_items api cwd (take k itemsToRemove) (0, 0) \<lparr>fsys = fs0, trace = []\<rparr>
                     = (Inr ck, wk)
                 \<and> removeRecursive api (path_join api cwd (itemsToRemove ! k)) wk
                     = (Inl e, snd (main api lc cwd answer fs0)))))
   \<and> (\<forall>p w e. fst (removeRecursive api p w) = Inl e \<longleftrightarrow>
         existsSync api p (fsys w)
         \<and> (statSync_isDirectory api p (fsys w) = Inl e
            \<or> (statSync_isDirectory api p (fsys w) = Inr True
                \<and> fst (rmSync api p (fsys w)) = Some e)
            \<or> (statSync_isDirectory api p (fsys w) = Inr False
                \<and> fst (unlinkSync api p (fsys w)) = Some e)))"
  (is "(?P \<longrightarrow> ?X) \<and> (?Q \<longrightarrow> ?A \<and> ?B \<and> ?C \<and> ?D \<and> ?E \<and> ?T \<and> ?O) \<and> ?R")
proof -
  have old: "(?P \<longrightarrow> ?X) \<and> (?Q \<longrightarrow> ?A \<and> ?B \<and> ?C \<and> ?D \<and> ?E)"
    by (rule cleanup_trace_and_counts)
  have t: ?T if q: ?Q
  proof (intro allI impI)
    fix k ck wk e w'
    assume h: "k < length itemsToRemove
      \<and> remove_items api cwd (take k itemsToRemove) (0, 0) \<lparr>fsys = fs0, trace = []\<rparr> = (Inr ck, wk)
      \<and> removeRecursive api (path_join api cwd (itemsToRemove ! k)) wk = (Inl e, w')"
    then have k: "k < length itemsToRemove"
      and pre: "remove_items api cwd (take k itemsToRemove) (0, 0) \<lparr>fsys = fs0, trace = []\<rparr>
                  = (Inr ck, wk)"
      and thr: "removeRecursive api (path_join api cwd (itemsToRemove ! k)) wk = (Inl e, w')"
      by simp_all
    from main_stops_at_throw [OF q k pre thr]
    show "main api lc cwd answer fs0 = (Exit_failure e, w')
          \<and> probes (trace w') = map (path_join api cwd) (take (Suc k) itemsToRemove)"
      by (rule conjI)
  qed
  have o: ?O if q: ?Q
    using main_failure_origin [OF q] by (intro allI impI)
  have r: ?R
    using removeRecursive_throws_iff [of api] by (intro allI)
  from old have px: "?P \<longrightarrow> ?X" by (rule conjunct1)
  from old have q5: "?Q \<longrightarrow> ?A \<and> ?B \<and> ?C \<and> ?D \<and> ?E" by (rule conjunct2)
  have q7: "?Q \<longrightarrow> ?A \<and> ?B \<and> ?C \<and> ?D \<and> ?E \<and> ?T \<and> ?O"
  proof
    assume q: ?Q
    from q5 q have "?A \<and> ?B \<and> ?C \<and> ?D \<and> ?E" by (rule mp)
    with t [OF q] o [OF q] show "?A \<and> ?B \<and> ?C \<and> ?D \<and> ?E \<and> ?T \<and> ?O"
      by (elim conjE) (intro conjI; assumption)
  qed
  from px q7 r show ?thesis by (intro conjI)
qed

lemma refusing_first_item:
  "remove_items refusing_api (js ''/repo'') (take 0 itemsToRemove) (0, 0)
     \<lparr>fsys = repo_files, trace = []\<rparr> = (Inr (0, 0), \<lparr>fsys = repo_files, trace = []\<rparr>)"
  "removeRecursive refusing_api (path_join refusing_api (js ''/repo'') (itemsToRemove ! 0))
     \<lparr>fsys = repo_files, trace = []\<rparr>
     = (Inl (js ''EACCES''),
        \<lparr>fsys = repo_files,
         trace = [ExistsSync (js ''/repo/backend''), StatSync (js ''/repo/backend''),
                  UnlinkSync (js ''/repo/backend'')]\<rparr>)"
  "(0::nat) < length itemsToRemove"
  "promptUser ascii_lower (js ''yes'') = js ''yes''"
  by (simp_all add: promptUser_def ascii_lower_def js_def itemsToRemove_def
        removeRecursive_def called_def flat_api_def refusing_api_def repo_files_def)

theorem cleanup_runs_only_when_confirmed_witness:
  "promptUser ascii_lower (js ''no'') \<noteq> js ''yes''
   \<and> main flat_api ascii_lower (js ''/repo'') (js ''no'') repo_files
       = (Cancelled, \<lparr>fsys = repo_files, trace = []\<rparr>)
   \<and> promptUser ascii_lower (js ''YES'') = js ''yes''
   \<and> never_throws flat_api
   \<and> fst (main flat_api ascii_lower (js ''/repo'') (js ''YES'') repo_files) = Completed 2 4
   \<and> probes (trace (snd (main flat_api ascii_lower (js ''/repo'') (js ''YES'') repo_files)))
       = map (path_join flat_api (js ''/repo'')) itemsToRemove
   \<and> main refusing_api ascii_lower (js ''/repo'') (js ''yes'') repo_files
       = (Exit_failure (js ''EACCES''),
          \<lparr>fsys = repo_files,
           trace = [ExistsSync (js ''/repo/backend''), StatSync (js ''/repo/backend''),
                    UnlinkSync (js ''/repo/backend'')]\<rparr>)"
proof -
  have ran: "promptUser ascii_lower (js ''no'') \<noteq> js ''yes''
   \<and> main flat_api ascii_lower (js ''/repo'') (js ''no'') repo_files
       = (Cancelled, \<lparr>fsys = repo_files, trace = []\<rparr>)
   \<and> promptUser ascii_lower (js ''YES'') = js ''yes''
   \<and> never_throws flat_api
   \<and> fst (main flat_api ascii_lower (js ''/repo'') (js ''YES'') repo_files) = Completed 2 4
   \<and> probes (trace (snd (main flat_api ascii_lower (js ''/repo'') (js ''YES'') repo_files)))
       = map (path_join flat_api (js ''/repo'')) itemsToRemove"
    using cleanup_runs_only_when_confirmed
        [of ascii_lower "js ''no''" flat_api "js ''/repo''" repo_files]
      cleanup_runs_only_when_confirmed
        [of ascii_lower "js ''YES''" flat_api "js ''/repo''" repo_files]
      never_throws_flat_api
    unfolding main_confirmed
    by (simp add: promptUser_def ascii_lower_def js_def)
  have threw: "main refusing_api ascii_lower (js ''/repo'') (js ''yes'') repo_files
       = (Exit_failure (js ''EACCES''),
          \<lparr>fsys = repo_files,
           trace = [ExistsSync (js ''/repo/backend''), StatSync (js ''/repo/backend''),
                    UnlinkSync (js ''/repo/backend'')]\<rparr>)"
    using cleanup_runs_only_when_confirmed
        [of ascii_lower "js ''yes''" refusing_api "js ''/repo''" repo_files]
      refusing_first_item
    by blast
  from ran threw show ?thesis by (elim conjE) (intro conjI; assumption)
qed

text \<open>
  The claim as stated, that a confirmed run always processes all six paths with removed plus
  skipped equal to six, fails when a removal throws: the loop is left at the first item,
  the rejection handler exits with status 1, and no count is produced.
\<close>

theorem cleanup_counterexample:
  "promptUser ascii_lower (js ''yes'') = js ''yes''
   \<and> main refusing_api ascii_lower (js ''/repo'') (js ''yes'') repo_files
       = (Exit_failure (js ''EACCES''),
          \<lparr>fsys = repo_files,
           trace = [ExistsSync (js ''/repo/backend''), StatSync (js ''/repo/backend''),
                    UnlinkSync (js ''/repo/backend'')]\<rparr>)"
  by (simp add: main_def promptUser_def ascii_lower_def js_def itemsToRemove_def
        removeRecursive_def called_def flat_api_def refusing_api_def repo_files_def)

section \<open>Errors of \<^verbatim>\<open>fetchPosts\<close>\<close>

text \<open>
  C7: when the provider answers the posts query with an error object, \<^verbatim>\<open>fetchPosts\<close> logs
  it with \<^verbatim>\<open>console.error\<close>, leaves the posts it holds as they are, and has issued that one
  query and no other, whatever the provider would answer to a second one.
\<close>

theorem fetchPosts_error_logged_once:
  "supabase (length (issued st)) Select_published_posts = Returned d (Some e) \<Longrightarrow>
     posts_st (fetchPosts supabase st) = posts_st st
     \<and> singlePost (fetchPosts supabase st) = singlePost st
     \<and> console (fetchPosts supabase st) = console st @ [Console_error ''Error fetching posts:'' e]
     \<and> issued (fetchPosts supabase st) = issued st @ [Select_published_posts]"
  by (simp add: fetchPosts_def Let_def)

theorem fetchPosts_error_logged_once_witness:
  "flaky (length (issued app0)) Select_published_posts = Returned None (Some ''timeout'')
   \<and> posts_st (fetchPosts flaky app0) = Some [7]
   \<and> console (fetchPosts flaky app0) = [Console_error ''Error fetching posts:'' ''timeout'']
   \<and> issued (fetchPosts flaky app0) = [Select_published_posts]
   \<and> posts_st (fetchPosts flaky (fetchPosts flaky app0)) = Some [1, 2]"
  using fetchPosts_error_logged_once [of flaky app0 None "''timeout''"]
  by (simp add: flaky_def app0_def fetchPosts_def Let_def)

section \<open>The auth context mirrors the session\<close>

text \<open>
  C8: after the handler of an auth state change, the held session is the delivered one and
  the held user is its user. With no session, user, userProfile and creatorProfile are all
  null and no query is issued; with a session, the query for the profile row of the
  session's user id has been issued.
\<close>

theorem auth_state_mirrors_session:
  "session (onAuthStateChange event sess st) = sess
   \<and> user (onAuthStateChange event sess st) = map_option sess_user sess
   \<and> (sess = None \<longrightarrow>
        user (onAuthStateChange event sess st) = None
        \<and> userProfile (onAuthStateChange event sess st) = None
        \<and> creatorProfile (onAuthStateChange event sess st) = None
        \<and> auth_issued (onAuthStateChange event sess st) = auth_issued st)
   \<and> (\<forall>s. sess = Some s \<longrightarrow>
        user (onAuthStateChange event sess st) = Some (sess_user s)
        \<and> auth_issued (onAuthStateChange event sess st)
            = auth_issued st @ [Select_user_by_id (au_id (sess_user s))])"
  by (auto simp: onAuthStateChange_def loadUserProfile_begin_def Let_def split: option.splits)

theorem auth_state_mirrors_session_witness:
  "user (onAuthStateChange SIGNED_OUT None signed_in) = None
   \<and> userProfile (onAuthStateChange SIGNED_OUT None signed_in) = None
   \<and> creatorProfile (onAuthStateChange SIGNED_OUT None signed_in) = None
   \<and> user (onAuthStateChange SIGNED_IN (Some \<lparr>sess_user = viewer, access_token = js ''t''\<rparr>)
            (onAuthStateChange SIGNED_OUT None signed_in)) = Some viewer
   \<and> auth_issued (onAuthStateChange SIGNED_IN (Some \<lparr>sess_user = viewer, access_token = js ''t''\<rparr>)
            (onAuthStateChange SIGNED_OUT None signed_in)) = [Select_user_by_id (js ''u2'')]"
  using auth_state_mirrors_session [of SIGNED_OUT None signed_in]
    auth_state_mirrors_session [of SIGNED_IN "Some \<lparr>sess_user = viewer, access_token = js ''t''\<rparr>"
      "onAuthStateChange SIGNED_OUT None signed_in"]
  by (simp add: signed_in_def viewer_def)

section \<open>Counters held by the client\<close>

lemma handleFollow_counter:
  "held_followers (handleFollow supabase usr creatorId st) =
     (case (usr, creatorId) of
        (Some u, Some cid) \<Rightarrow>
          if cid \<noteq> [] \<and> pg_isFollowing st
             \<and> supabase (length (pg_issued st)) (Delete_follow (au_id u) cid) = Done
          then map_option (\<lambda>n. max 0 (n - 1)) (held_followers st)
          else if cid \<noteq> [] \<and> \<not> pg_isFollowing st
             \<and> supabase (length (pg_issued st)) (Insert_follow (au_id u) cid) = Done
          then map_option (\<lambda>n. n + 1) (held_followers st)
          else held_followers st
      | _ \<Rightarrow> held_followers st)"
  by (auto simp: handleFollow_def held_followers_def Let_def option.map_comp comp_def
      split: option.splits mutation.splits)

lemma handleSupport_counter:
  "(held_earnings (handleSupport ops supabase usr creatorId st),
    held_supporters (handleSupport ops supabase usr creatorId st)) =
     (case (usr, creatorId) of
        (Some u, Some cid) \<Rightarrow>
          if cid \<noteq> [] \<and> pg_supportAmount st \<noteq> []
             \<and> \<not> nan_or_not_positive ops (parseFloat ops (pg_supportAmount st))
             \<and> supabase (length (pg_issued st))
                  (Insert_pending_transaction (au_id u) cid (parseFloat ops (pg_supportAmount st))
                     (if pg_supportMessage st = [] then None else Some (pg_supportMessage st))) = Done
          then (map_option (\<lambda>t. num_add ops t (parseFloat ops (pg_supportAmount st))) (held_earnings st),
                map_option (\<lambda>n. n + 1) (held_supporters st))
          else (held_earnings st, held_supporters st)
      | _ \<Rightarrow> (held_earnings st, held_supporters st))"
  by (auto simp: handleSupport_def held_earnings_def held_supporters_def Let_def
        option.map_comp comp_def
      split: option.splits mutation.splits)

lemma handleLike_counter:
  "likesCount (handleLike sel wr usr pid pc) =
     (case usr of
        None \<Rightarrow> likesCount pc
      | Some u \<Rightarrow>
          if isLiking pc then likesCount pc
          else
            (case sel (length (card_issued pc)) (Select_like pid (au_id u)) of
               Thrown e \<Rightarrow> likesCount pc
             | Returned (Some l) err \<Rightarrow>
                 if wr (Suc (length (card_issued pc))) (Delete_like pid (au_id u)) = Done
                 then max 0 (likesCount pc - 1) else likesCount pc
             | Returned None err \<Rightarrow>
                 if wr (Suc (length (card_issued pc))) (Insert_like pid (au_id u)) = Done
                 then likesCount pc + 1 else likesCount pc))"
  by (auto simp: handleLike_def Let_def split: option.splits mutation.splits response.splits)

text \<open>
  C3, as the code has it: the counters the client holds after follow or unfollow, support,
  and like or unlike are computed by the client from the value it held before. When the
  provider accepts the write, followers_count is the held value plus one, or minus one
  floored at zero; total_earnings is the held value plus the parsed amount and
  supporters_count the held value plus one; likesCount is the held value plus one, or minus
  one floored at zero. In every other case the held value stays. No handler reads a counter
  from the provider: the only responses used are the outcome of the write and, for a like,
  whether the user's like exists.
\<close>

theorem client_counters_computed_locally:
  "held_followers (handleFollow supabase usr creatorId st) =
     (case (usr, creatorId) of
        (Some u, Some cid) \<Rightarrow>
          if cid \<noteq> [] \<and> pg_isFollowing st
             \<and> supabase (length (pg_issued st)) (Delete_follow (au_id u) cid) = Done
          then map_option (\<lambda>n. max 0 (n - 1)) (held_followers st)
          else if cid \<noteq> [] \<and> \<not> pg_isFollowing st
             \<and> supabase (length (pg_issued st)) (Insert_follow (au_id u) cid) = Done
          then map_option (\<lambda>n. n + 1) (held_followers st)
          else held_followers st
      | _ \<Rightarrow> held_followers st)
   \<and> (held_earnings (handleSupport ops supabase usr creatorId st),
       held_supporters (handleSupport ops supabase usr creatorId st)) =
     (case (usr, creatorId) of
        (Some u, Some cid) \<Rightarrow>
          if cid \<noteq> [] \<and> pg_supportAmount st \<noteq> []
             \<and> \<not> nan_or_not_positive ops (parseFloat ops (pg_supportAmount st))
             \<and> supabase (length (pg_issued st))
                  (Insert_pending_transaction (au_id u) cid (parseFloat ops (pg_supportAmount st))
                     (if pg_supportMessage st = [] then None else Some (pg_supportMessage st))) = Done
          then (map_option (\<lambda>t. num_add ops t (parseFloat ops (pg_supportAmount st))) (held_earnings st),
                map_option (\<lambda>n. n + 1) (held_supporters st))
          else (held_earnings st, held_supporters st)
      | _ \<Rightarrow> (held_earnings st, held_supporters st))
   \<and> likesCount (handleLike sel wr usr pid pc) =
     (case usr of
        None \<Rightarrow> likesCount pc
      | Some u \<Rightarrow>
          if isLiking pc then likesCount pc
          else
            (case sel (length (card_issued pc)) (Select_like pid (au_id u)) of
               Thrown e \<Rightarrow> likesCount pc
             | Returned (Some l) err \<Rightarrow>
                 if wr (Suc (length (card_issued pc))) (Delete_like pid (au_id u)) = Done
                 then max 0 (likesCount pc - 1) else likesCount pc
             | Returned None err \<Rightarrow>
                 if wr (Suc (length (card_issued pc))) (Insert_like pid (au_id u)) = Done
                 then likesCount pc + 1 else likesCount pc))"
  using handleFollow_counter [of supabase usr creatorId st]
    handleSupport_counter [of ops supabase usr creatorId st]
    handleLike_counter [of sel wr usr pid pc]
  by (intro conjI)

theorem client_counters_computed_locally_witness:
  "held_followers (handleFollow accepting (Some viewer) (Some (js ''u1'')) (example_page 5)) = Some 6
   \<and> held_earnings (handleSupport int_ops accepting (Some viewer) (Some (js ''u1'')) (example_page 5))
       = Some 100
   \<and> held_supporters (handleSupport int_ops accepting (Some viewer) (Some (js ''u1'')) (example_page 5))
       = Some 1
   \<and> likesCount (handleLike no_like_yet accepting (Some viewer) (js ''p1'') example_card) = 4"
  using client_counters_computed_locally [of accepting "Some viewer" "Some (js ''u1'')" "example_page 5"
      int_ops no_like_yet accepting "js ''p1''" example_card]
  by (simp add: accepting_def viewer_def example_page_def example_profile_def example_card_def
        held_followers_def held_earnings_def held_supporters_def int_ops_def no_like_yet_def js_def)

text \<open>
  The claim as stated, that the counter the client holds after an operation comes only from
  database rows and never from arithmetic on the value held before, fails: against the same
  provider, a page that held 5 followers holds 6 after a follow and one that held 7 holds 8;
  and after a support of 100 the page holds earnings of 100 although all it sent is the insert
  of a pending transaction.
\<close>

theorem client_counter_counterexample:
  "held_followers (handleFollow accepting (Some viewer) (Some (js ''u1'')) (example_page 5)) = Some 6
   \<and> held_followers (handleFollow accepting (Some viewer) (Some (js ''u1'')) (example_page 7)) = Some 8
   \<and> held_earnings (handleSupport int_ops accepting (Some viewer) (Some (js ''u1'')) (example_page 5))
       = Some 100
   \<and> pg_issued (handleSupport int_ops accepting (Some viewer) (Some (js ''u1'')) (example_page 5))
       = [Insert_pending_transaction (js ''u2'') (js ''u1'') 100 None]"
  by (simp add: handleFollow_def handleSupport_def accepting_def viewer_def example_page_def
        example_profile_def held_followers_def held_earnings_def int_ops_def js_def Let_def)

section \<open>Feeds\<close>

lemma order_by_sorted:
  "sorted_wrt (\<lambda>a b. p_created_at (fst a) \<ge> p_created_at (fst b)) (order_by_created_at_desc xs)"
proof -
  have "sorted (map (\<lambda>(p, u, s). - p_created_at p) (order_by_created_at_desc xs))"
    unfolding order_by_created_at_desc_def by (rule sorted_sort_key)
  then show ?thesis
    by (simp add: sorted_wrt_map case_prod_beta)
qed

lemma order_by_mset: "mset (order_by_created_at_desc xs) = mset xs"
  by (simp add: order_by_created_at_desc_def)

lemma order_by_set: "set (order_by_created_at_desc xs) = set xs"
  by (simp add: order_by_created_at_desc_def)

lemma discovery_created: "post_created_at (discovery_select db v x) = p_created_at (fst x)"
  by (cases x) (simp add: discovery_select_def)

lemma feed_created: "post_created_at (feed_select db v x) = p_created_at (fst x)"
  by (cases x) (simp add: feed_select_def)

lemma published_postsD:
  "(p, u, s) \<in> set (published_posts db) \<Longrightarrow>
     p \<in> set (posts db) \<and> u \<in> set (users db) \<and> s \<in> set (series db) \<and> p_user_id p = u_id u
     \<and> p_series_id p = Some (s_id s) \<and> p_is_published p \<and> p_deleted_at p = None
     \<and> s_deleted_at s = None"
  by (auto simp: published_posts_def split: if_splits)

lemma followed_postsD:
  "(p, u, s) \<in> set (followed_posts db v) \<Longrightarrow>
     p \<in> set (posts db) \<and> u \<in> set (users db) \<and> s \<in> set (series db) \<and> p_user_id p = u_id u
     \<and> p_series_id p = Some (s_id s) \<and> p_is_published p \<and> p_deleted_at p = None
     \<and> s_deleted_at s = None
     \<and> (\<exists>f \<in> set (follows db). f_follower_id f = v \<and> f_following_id f = p_user_id p)"
  by (auto simp: followed_posts_def split: if_splits)

lemma sorted_desc_select:
  assumes "\<And>x. post_created_at (sel x) = p_created_at (fst x)"
  shows "sorted_wrt (\<ge>) (map post_created_at (map sel (order_by_created_at_desc xs)))"
  using order_by_sorted [of xs] by (simp add: sorted_wrt_map assms)


text \<open>
  C5: for every database, user and limit, \<^verbatim>\<open>get_discovery_feed\<close> fails only on a negative
  limit (which the engine rejects) and otherwise returns at most \<open>feed_limit\<close> rows; every
  row is a published post with \<^verbatim>\<open>deleted_at\<close> null whose series has \<^verbatim>\<open>deleted_at\<close> null;
  the rows are in descending order of the post's \<^verbatim>\<open>created_at\<close>; and they are the first
  \<open>feed_limit\<close> rows of an arrangement of all such rows in that order, so nothing but the
  order and the limit decides what is returned.
\<close>

theorem discovery_feed_filter_order_limit:
  "(case get_discovery_feed db user_uuid feed_limit of
      Inl e \<Rightarrow> feed_limit < 0
    | Inr rows \<Rightarrow>
        0 \<le> feed_limit \<and> length rows \<le> nat feed_limit
        \<and> (\<forall>r \<in> set rows. \<exists>p \<in> set (posts db). \<exists>s \<in> set (series db).
              post_id r = p_id p \<and> post_created_at r = p_created_at p
              \<and> p_is_published p \<and> p_deleted_at p = None
              \<and> p_series_id p = Some (s_id s) \<and> s_deleted_at s = None)
        \<and> sorted_wrt (\<ge>) (map post_created_at rows)
        \<and> (\<exists>ordering.
              mset ordering = mset (map (discovery_select db user_uuid) (published_posts db))
              \<and> sorted_wrt (\<ge>) (map post_created_at ordering)
              \<and> rows = take (nat feed_limit) ordering))"
proof (cases "feed_limit < 0")
  case True
  then show ?thesis by (simp add: get_discovery_feed_def)
next
  case False
  let ?all = "map (discovery_select db user_uuid) (order_by_created_at_desc (published_posts db))"
  let ?rows = "take (nat feed_limit) ?all"
  have res: "get_discovery_feed db user_uuid feed_limit = Inr ?rows"
    using False by (simp add: get_discovery_feed_def)
  have srt: "sorted_wrt (\<ge>) (map post_created_at ?all)"
    by (rule sorted_desc_select) (rule discovery_created)
  have ms: "mset ?all = mset (map (discovery_select db user_uuid) (published_posts db))"
    by (simp add: order_by_mset)
  have len: "length ?rows \<le> nat feed_limit" by simp
  have rows: "\<exists>p \<in> set (posts db). \<exists>s \<in> set (series db).
              post_id r = p_id p \<and> post_created_at r = p_created_at p
              \<and> p_is_published p \<and> p_deleted_at p = None
              \<and> p_series_id p = Some (s_id s) \<and> s_deleted_at s = None"
    if "r \<in> set ?rows" for r
  proof -
    from that have "r \<in> set ?all" by (rule in_set_takeD)
    then obtain p u s where m: "(p, u, s) \<in> set (published_posts db)"
      and r: "r = discovery_select db user_uuid (p, u, s)"
      by (auto simp: order_by_set)
    from published_postsD [OF m] r show ?thesis
      by (auto simp: discovery_select_def)
  qed
  have srt_rows: "sorted_wrt (\<ge>) (map post_created_at ?rows)"
    using sorted_wrt_take [OF srt, of "nat feed_limit"] by (simp only: take_map)
  have ex: "\<exists>ordering.
              mset ordering = mset (map (discovery_select db user_uuid) (published_posts db))
              \<and> sorted_wrt (\<ge>) (map post_created_at ordering)
              \<and> ?rows = take (nat feed_limit) ordering"
    using ms srt by (intro exI [of _ ?all]) simp
  have pos: "0 \<le> feed_limit" using False by simp
  show ?thesis
    unfolding res sum.case using pos len rows srt_rows ex by (intro conjI ballI)
qed

theorem discovery_feed_filter_order_limit_witness:
  "map_sum id (map post_id) (get_discovery_feed example_db 3 1) = Inr [101]
   \<and> map_sum id (map post_id) (get_discovery_feed example_db 3 5) = Inr [101, 100]
   \<and> get_discovery_feed example_db 3 (- 1) = Inl Negative_limit"
  using discovery_feed_filter_order_limit [where db = example_db and user_uuid = 3 and feed_limit = 1]
    discovery_feed_filter_order_limit [where db = example_db and user_uuid = 3 and feed_limit = "- 1"]
  by (simp add: get_discovery_feed_def example_db_def mk_post_def published_posts_def
        order_by_created_at_desc_def discovery_select_def)

text \<open>
  C6: for every database, user, limit and offset, \<^verbatim>\<open>get_user_feed\<close> fails only on a
  negative limit or offset and otherwise returns at most \<open>feed_limit\<close> rows; every row is a
  published post with \<^verbatim>\<open>deleted_at\<close> null whose author the user follows; the rows are in
  descending order of \<^verbatim>\<open>created_at\<close>, and they are what is left of the first
  \<open>feed_limit\<close> rows after skipping \<open>feed_offset\<close> rows of an arrangement of all
  qualifying rows in that order.
\<close>

theorem user_feed_filter_order_page:
  "(case get_user_feed db user_uuid feed_limit feed_offset of
      Inl e \<Rightarrow> feed_limit < 0 \<or> feed_offset < 0
    | Inr rows \<Rightarrow>
        0 \<le> feed_limit \<and> 0 \<le> feed_offset \<and> length rows \<le> nat feed_limit
        \<and> (\<forall>r \<in> set rows. \<exists>p \<in> set (posts db).
              post_id r = p_id p \<and> creator_id r = p_user_id p
              \<and> post_created_at r = p_created_at p
              \<and> p_is_published p \<and> p_deleted_at p = None
              \<and> (\<exists>f \<in> set (follows db).
                    f_follower_id f = user_uuid \<and> f_following_id f = p_user_id p))
        \<and> sorted_wrt (\<ge>) (map post_created_at rows)
        \<and> (\<exists>ordering.
              mset ordering = mset (map (feed_select db user_uuid) (followed_posts db user_uuid))
              \<and> sorted_wrt (\<ge>) (map post_created_at ordering)
              \<and> rows = take (nat feed_limit) (drop (nat feed_offset) ordering)))"
proof (cases "feed_limit < 0 \<or> feed_offset < 0")
  case True
  then show ?thesis by (auto simp: get_user_feed_def)
next
  case False
  let ?all = "map (feed_select db user_uuid) (order_by_created_at_desc (followed_posts db user_uuid))"
  let ?rows = "take (nat feed_limit) (drop (nat feed_offset) ?all)"
  have res: "get_user_feed db user_uuid feed_limit feed_offset = Inr ?rows"
    using False by (simp add: get_user_feed_def)
  have srt: "sorted_wrt (\<ge>) (map post_created_at ?all)"
    by (rule sorted_desc_select) (rule feed_created)
  have ms: "mset ?all = mset (map (feed_select db user_uuid) (followed_posts db user_uuid))"
    by (simp add: order_by_mset)
  have len: "length ?rows \<le> nat feed_limit" by simp
  have rows: "\<exists>p \<in> set (posts db).
              post_id r = p_id p \<and> creator_id r = p_user_id p
              \<and> post_created_at r = p_created_at p
              \<and> p_is_published p \<and> p_deleted_at p = None
              \<and> (\<exists>f \<in> set (follows db).
                    f_follower_id f = user_uuid \<and> f_following_id f = p_user_id p)"
    if "r \<in> set ?rows" for r
  proof -
    from that have "r \<in> set ?all" by (meson in_set_takeD in_set_dropD)
    then obtain p u s where m: "(p, u, s) \<in> set (followed_posts db user_uuid)"
      and r: "r = feed_select db user_uuid (p, u, s)"
      by (auto simp: order_by_set)
    from followed_postsD [OF m] r show ?thesis
      by (auto simp: feed_select_def)
  qed
  have "sorted_wrt (\<ge>) (take (nat feed_limit) (drop (nat feed_offset) (map post_created_at ?all)))"
    using srt by simp
  then have srt_rows: "sorted_wrt (\<ge>) (map post_created_at ?rows)"
    by (simp only: take_map drop_map)
  have ex: "\<exists>ordering.
              mset ordering = mset (map (feed_select db user_uuid) (followed_posts db user_uuid))
              \<and> sorted_wrt (\<ge>) (map post_created_at ordering)
              \<and> ?rows = take (nat feed_limit) (drop (nat feed_offset) ordering)"
    using ms srt by (intro exI [of _ ?all]) simp
  have pos: "0 \<le> feed_limit" "0 \<le> feed_offset" using False by simp_all
  show ?thesis
    unfolding res sum.case using pos len rows srt_rows ex by (intro conjI ballI)
qed

theorem user_feed_filter_order_page_witness:
  "map_sum id (map post_id) (get_user_feed example_db 3 1 1) = Inr [100]
   \<and> map_sum id (map post_id) (get_user_feed example_db 3 5 0) = Inr [101, 100]
   \<and> get_user_feed example_db 3 1 (- 1) = Inl Negative_offset"
  using user_feed_filter_order_page
      [where db = example_db and user_uuid = 3 and feed_limit = 1 and feed_offset = 1]
    user_feed_filter_order_page
      [where db = example_db and user_uuid = 3 and feed_limit = 1 and feed_offset = "- 1"]
  by (simp add: get_user_feed_def example_db_def mk_post_def followed_posts_def
        order_by_created_at_desc_def feed_select_def)

section \<open>Counter triggers\<close>

lemma column_ref_single:
  "column_ref [Posts] ''likes_count'' = Inr Posts"
  "column_ref [Posts] ''comments_count'' = Inr Posts"
  "column_ref [Creator_profiles] ''followers_count'' = Inr Creator_profiles"
  "column_ref [Series] ''posts_count'' = Inr Series"
  "column_ref [Creator_profiles] ''posts_count'' = Inr Creator_profiles"
  "column_ref [Creator_profiles] ''series_count'' = Inr Creator_profiles"
  by (simp_all add: column_ref_def)


lemma count_where_snoc:
  "count_where P (xs @ [r]) = (if P r then plus_one (count_where P xs) else count_where P xs)"
  by (simp add: count_where_def plus_one_def)

lemma length_filter_remove1:
  "r \<in> set xs \<Longrightarrow> P r \<Longrightarrow> Suc (length (filter P (remove1 r xs))) = length (filter P xs)"
  by (induction xs) auto

lemma filter_remove1_other:
  "\<not> P r \<Longrightarrow> filter P (remove1 r xs) = filter P xs"
  by (induction xs) auto

lemma count_where_remove1:
  "r \<in> set xs \<Longrightarrow>
     count_where P (remove1 r xs) = (if P r then minus_one_floor (count_where P xs) else count_where P xs)"
  using length_filter_remove1 [of r xs P]
  by (auto simp: count_where_def minus_one_floor_def filter_remove1_other)


lemma sync_comments:
  "table_of stmt = Post_comments \<Longrightarrow> in_sync Posts_comments_count db \<Longrightarrow>
     in_sync Posts_comments_count (committed db (execute stmt db))"
  by (cases stmt)
     (auto simp: committed_def update_post_comments_count_def update_posts_comments_count_def
        column_ref_single count_where_snoc count_where_remove1)

lemma sync_followers:
  "table_of stmt = Follows \<Longrightarrow> in_sync Creator_followers_count db \<Longrightarrow>
     in_sync Creator_followers_count (committed db (execute stmt db))"
  by (cases stmt)
     (auto simp: committed_def update_followers_count_def update_creator_followers_count_def
        column_ref_single count_where_snoc count_where_remove1)

lemma sync_series_posts:
  "table_of stmt = Posts \<Longrightarrow> in_sync Series_posts_count db \<Longrightarrow>
     in_sync Series_posts_count (committed db (execute stmt db))"
  by (cases stmt)
     (auto simp: committed_def update_series_posts_count_def update_series_posts_count_of_def
        update_creator_posts_count_def
        column_ref_single count_where_snoc count_where_remove1)

lemma sync_creator_posts:
  "table_of stmt = Posts \<Longrightarrow> in_sync Creator_posts_count db \<Longrightarrow>
     in_sync Creator_posts_count (committed db (execute stmt db))"
  by (cases stmt)
     (auto simp: committed_def update_series_posts_count_def update_series_posts_count_of_def
        update_creator_posts_count_def
        column_ref_single count_where_snoc count_where_remove1)

lemma sync_creator_series:
  "table_of stmt = Series \<Longrightarrow> in_sync Creator_series_count db \<Longrightarrow>
     in_sync Creator_series_count (committed db (execute stmt db))"
  by (cases stmt)
     (auto simp: committed_def update_creator_series_count_def update_creator_series_count_of_def
        column_ref_single count_where_snoc count_where_remove1)

text \<open>
  What the two statements of \<^verbatim>\<open>update_post_likes_count\<close> are written to do: had the engine
  found \<^verbatim>\<open>likes_count\<close> in the target table \<^verbatim>\<open>creator_profiles\<close>, they would keep both
  likes counters equal to their row counts, on insert and on delete.
\<close>

lemma set_creator_likes_count_target:
  "set_creator_likes_count Creator_profiles f post_uuid db =
     db\<lparr>creator_profiles :=
          map (\<lambda>cp. case filter (\<lambda>p. p_id p = post_uuid \<and> cp_user_id cp = p_user_id p)
                            (posts db) of
                      [] \<Rightarrow> cp
                    | p # ps \<Rightarrow> cp\<lparr>cp_likes_count := f (cp_likes_count cp)\<rparr>)
              (creator_profiles db)\<rparr>"
  by (simp add: set_creator_likes_count_def cong: list.case_cong)

lemma likes_rows_sync:
  fixes db :: database and r :: post_likes_row and f :: "int option \<Rightarrow> int option"
    and L' :: "post_likes_row list"
  defines "g \<equiv> (\<lambda>p. if p_id p = pl_post_id r then p\<lparr>p_likes_count := f (p_likes_count p)\<rparr> else p)"
  defines "db1 \<equiv> db\<lparr>post_likes := L', posts := map g (posts db)\<rparr>"
  assumes ps: "in_sync Posts_likes_count db" and cs: "in_sync Creator_likes_count db"
    and step: "\<And>P. count_where P L' =
                 (if P r then f (count_where P (post_likes db)) else count_where P (post_likes db))"
  shows "in_sync Posts_likes_count (set_creator_likes_count Creator_profiles f (pl_post_id r) db1)"
    and "in_sync Creator_likes_count (set_creator_likes_count Creator_profiles f (pl_post_id r) db1)"
proof -
  have g_keys: "p_id (g p) = p_id p" "p_user_id (g p) = p_user_id p" for p
    by (simp_all add: g_def)
  have owner: "(\<exists>p \<in> set (map g (posts db)). p_id p = a \<and> p_user_id p = b)
                 \<longleftrightarrow> (\<exists>p \<in> set (posts db). p_id p = a \<and> p_user_id p = b)" for a b
    by (auto simp: g_keys)
  show "in_sync Posts_likes_count (set_creator_likes_count Creator_profiles f (pl_post_id r) db1)"
    using ps by (auto simp: set_creator_likes_count_target db1_def g_def step)
  let ?Q = "\<lambda>cp l. \<exists>p \<in> set (posts db). p_id p = pl_post_id l \<and> p_user_id p = cp_user_id cp"
  have joined: "filter (\<lambda>p. p_id p = pl_post_id r \<and> cp_user_id cp = p_user_id p) (map g (posts db)) = []
                  \<longleftrightarrow> \<not> ?Q cp r" for cp :: creator_profiles_row
    by (auto simp: filter_empty_conv g_keys)
  have "cp_likes_count cp' =
          count_where (\<lambda>l. \<exists>p \<in> set (map g (posts db)). p_id p = pl_post_id l \<and> p_user_id p = cp_user_id cp') L'"
    if "cp' \<in> set (creator_profiles (set_creator_likes_count Creator_profiles f (pl_post_id r) db1))"
    for cp' :: creator_profiles_row
  proof -
    from that obtain cp where cp: "cp \<in> set (creator_profiles db)"
      and cp': "cp' = (case filter (\<lambda>p. p_id p = pl_post_id r \<and> cp_user_id cp = p_user_id p)
                              (map g (posts db)) of
                         [] \<Rightarrow> cp
                       | p # ps \<Rightarrow> cp\<lparr>cp_likes_count := f (cp_likes_count cp)\<rparr>)"
      by (auto simp: set_creator_likes_count_target db1_def)
    from cs cp have old: "cp_likes_count cp = count_where (?Q cp) (post_likes db)" by simp
    show ?thesis
    proof (cases "?Q cp r")
      case True
      with joined [of cp] cp' have "cp' = cp\<lparr>cp_likes_count := f (cp_likes_count cp)\<rparr>"
        by (auto split: list.splits)
      with True old show ?thesis by (auto simp add: step g_keys)
    next
      case False
      with joined [of cp] cp' have "cp' = cp" by simp
      with False old show ?thesis by (auto simp add: step g_keys)
    qed
  qed
  then show "in_sync Creator_likes_count (set_creator_likes_count Creator_profiles f (pl_post_id r) db1)"
    by (simp add: set_creator_likes_count_target db1_def)
qed


lemma likes_statements_with_qualified_reference:
  assumes "in_sync Posts_likes_count db" "in_sync Creator_likes_count db"
  shows "update_posts_likes_count plus_one (pl_post_id r) (db\<lparr>post_likes := post_likes db @ [r]\<rparr>)
           = Inr db1 \<Longrightarrow>
         in_sync Posts_likes_count (set_creator_likes_count Creator_profiles plus_one (pl_post_id r) db1)
         \<and> in_sync Creator_likes_count
             (set_creator_likes_count Creator_profiles plus_one (pl_post_id r) db1)"
    and "r \<in> set (post_likes db) \<Longrightarrow>
         update_posts_likes_count minus_one_floor (pl_post_id r)
           (db\<lparr>post_likes := remove1 r (post_likes db)\<rparr>) = Inr db2 \<Longrightarrow>
         in_sync Posts_likes_count
           (set_creator_likes_count Creator_profiles minus_one_floor (pl_post_id r) db2)
         \<and> in_sync Creator_likes_count
             (set_creator_likes_count Creator_profiles minus_one_floor (pl_post_id r) db2)"
proof -
  assume "update_posts_likes_count plus_one (pl_post_id r) (db\<lparr>post_likes := post_likes db @ [r]\<rparr>)
           = Inr db1"
  then have "db1 = db\<lparr>post_likes := post_likes db @ [r],
                      posts := map (\<lambda>p. if p_id p = pl_post_id r
                                         then p\<lparr>p_likes_count := plus_one (p_likes_count p)\<rparr> else p)
                                 (posts db)\<rparr>"
    by (auto simp: update_posts_likes_count_def column_ref_single)
  with likes_rows_sync [OF assms, of "post_likes db @ [r]" r plus_one]
  show "in_sync Posts_likes_count (set_creator_likes_count Creator_profiles plus_one (pl_post_id r) db1)
         \<and> in_sync Creator_likes_count
             (set_creator_likes_count Creator_profiles plus_one (pl_post_id r) db1)"
    by (simp add: count_where_snoc)
next
  assume r: "r \<in> set (post_likes db)"
    and "update_posts_likes_count minus_one_floor (pl_post_id r)
           (db\<lparr>post_likes := remove1 r (post_likes db)\<rparr>) = Inr db2"
  then have "db2 = db\<lparr>post_likes := remove1 r (post_likes db),
                      posts := map (\<lambda>p. if p_id p = pl_post_id r
                                         then p\<lparr>p_likes_count := minus_one_floor (p_likes_count p)\<rparr> else p)
                                 (posts db)\<rparr>"
    by (auto simp: update_posts_likes_count_def column_ref_single)
  with likes_rows_sync [OF assms, of "remove1 r (post_likes db)" r minus_one_floor]
  show "in_sync Posts_likes_count
           (set_creator_likes_count Creator_profiles minus_one_floor (pl_post_id r) db2)
         \<and> in_sync Creator_likes_count
             (set_creator_likes_count Creator_profiles minus_one_floor (pl_post_id r) db2)"
    by (simp add: count_where_remove1 [OF r])
qed


lemma follow_inserted:
  "map cp_followers_count (creator_profiles (committed creator_db
     (execute (INSERT_follows \<lparr>f_follower_id = 4, f_following_id = 1\<rparr>) creator_db))) = [Some 2]"
  by (simp add: update_followers_count_def update_creator_followers_count_def column_ref_def
        committed_def creator_db_def plus_one_def)

lemma post_deleted:
  "map cp_posts_count (creator_profiles (committed creator_db
     (execute (DELETE_posts (mk_post 100 1 None 5 True)) creator_db))) = [Some 1]"
  by (simp add: update_series_posts_count_def update_series_posts_count_of_def
        update_creator_posts_count_def column_ref_def committed_def creator_db_def
        minus_one_floor_def mk_post_def)

lemma other_statements_succeed:
  "table_of stmt \<noteq> Post_likes \<Longrightarrow> \<exists>db'. execute stmt db = Inr db'"
  by (cases stmt)
     (simp_all add: update_post_comments_count_def update_posts_comments_count_def
        update_followers_count_def update_creator_followers_count_def
        update_series_posts_count_def update_series_posts_count_of_def
        update_creator_posts_count_def update_creator_series_count_def
        update_creator_series_count_of_def column_ref_single)

text \<open>
  The five counters whose triggers have no \<^verbatim>\<open>FROM\<close> clause: the insert or delete goes
  through, and in the database it leaves the counter of every row equals the number of
  matching rows again.
\<close>

lemma other_counters_follow_rows:
  assumes "table_of stmt = counted_table c" "counted_table c \<noteq> Post_likes" "in_sync c db"
  shows "\<exists>db'. execute stmt db = Inr db' \<and> in_sync c db'"
proof -
  from assms(1,2) have "table_of stmt \<noteq> Post_likes" by simp
  from other_statements_succeed [OF this] obtain db' where ok: "execute stmt db = Inr db'"
    by blast
  have "in_sync c (committed db (execute stmt db))"
    using assms
    by (cases c)
       (simp_all only: counted_table.simps sync_comments sync_followers
          sync_series_posts sync_creator_posts sync_creator_series, simp_all)
  with ok show ?thesis by (simp add: committed_def)
qed

lemma like_in_flight_counts:
  "map cp_likes_count (creator_profiles like_in_flight) = [Some 0]"
  "map (\<lambda>cp. count_where (\<lambda>l. \<exists>p \<in> set (posts like_in_flight).
                               p_id p = pl_post_id l \<and> p_user_id p = cp_user_id cp)
                 (post_likes like_in_flight))
       (creator_profiles like_in_flight) = [Some 1]"
  by (simp_all add: like_in_flight_def creator_db_def mk_post_def count_where_def)


lemma counter_arithmetic:
  "plus_one (Some n) = Some (n + 1)" "minus_one_floor (Some n) = Some (max (n - 1) 0)"
  "\<exists>m \<ge> 0. minus_one_floor c = Some m"
  by (auto simp: plus_one_def minus_one_floor_def split: option.splits)

lemma single_table_triggers:
  "update_followers_count INSERT f db =
     Inr (db\<lparr>creator_profiles :=
            map (\<lambda>cp. if cp_user_id cp = f_following_id f
                       then cp\<lparr>cp_followers_count := plus_one (cp_followers_count cp)\<rparr> else cp)
                (creator_profiles db)\<rparr>)"
  "update_followers_count DELETE f db =
     Inr (db\<lparr>creator_profiles :=
            map (\<lambda>cp. if cp_user_id cp = f_following_id f
                       then cp\<lparr>cp_followers_count := minus_one_floor (cp_followers_count cp)\<rparr> else cp)
                (creator_profiles db)\<rparr>)"
  "update_post_comments_count INSERT pc db =
     Inr (db\<lparr>posts :=
            map (\<lambda>p. if p_id p = pc_post_id pc
                      then p\<lparr>p_comments_count := plus_one (p_comments_count p)\<rparr> else p)
                (posts db)\<rparr>)"
  "update_post_comments_count DELETE pc db =
     Inr (db\<lparr>posts :=
            map (\<lambda>p. if p_id p = pc_post_id pc
                      then p\<lparr>p_comments_count := minus_one_floor (p_comments_count p)\<rparr> else p)
                (posts db)\<rparr>)"
  by (simp_all add: update_followers_count_def update_creator_followers_count_def
        update_post_comments_count_def update_posts_comments_count_def column_ref_single)

text \<open>
  C4 at a failing input: in \<open>creator_db\<close>, where post 100 and the profile of its author hold
  0 likes, reader 3 likes post 100. The second \<^verbatim>\<open>UPDATE\<close> of \<^verbatim>\<open>update_post_likes_count\<close>
  reads \<^verbatim>\<open>likes_count\<close> unqualified with both \<^verbatim>\<open>creator_profiles\<close> and \<^verbatim>\<open>posts\<close> in scope, the
  trigger fails, and both counters are 0 afterwards, not 1.
\<close>

theorem likes_trigger_rejected:
  "execute (INSERT_post_likes \<lparr>pl_post_id = 100, pl_user_id = 3\<rparr>) creator_db
     = Inl (Ambiguous_column ''likes_count'')
   \<and> map p_likes_count (posts creator_db) = [Some 0, Some 0]
   \<and> map p_likes_count
        (posts (committed creator_db
                 (execute (INSERT_post_likes \<lparr>pl_post_id = 100, pl_user_id = 3\<rparr>) creator_db)))
       = [Some 0, Some 0]
   \<and> map cp_likes_count
        (creator_profiles (committed creator_db
                 (execute (INSERT_post_likes \<lparr>pl_post_id = 100, pl_user_id = 3\<rparr>) creator_db)))
       = [Some 0]"
  by (simp add: update_post_likes_count_def update_posts_likes_count_def
        update_creator_likes_count_def column_ref_def committed_def creator_db_def mk_post_def)

section \<open>Creator statistics\<close>

lemma get_creator_stats_one_post:
  "map total_earnings (get_creator_stats (creator_db\<lparr>posts := [mk_post 100 1 None 5 True]\<rparr>) 1)
     = [100]"
  by (simp add: get_creator_stats_def group_by_def stats_key_def stats_join_def left_join_def
        stats_of_group_def sum_or_zero_def creator_db_def mk_post_def)

text \<open>
  C2 at a failing input: creator 1 of \<open>creator_db\<close> has one completed transaction of 100 and
  two live posts. The joins of \<^verbatim>\<open>get_creator_stats\<close> pair the transaction with each post, and
  the plain \<^verbatim>\<open>SUM\<close> adds it twice: the function returns 200 where the completed
  transactions sum to 100.
\<close>

theorem get_creator_stats_multiplies_earnings:
  "map total_earnings (get_creator_stats creator_db 1) = [200]
   \<and> completed_earnings creator_db 1 = 100"
  by (simp add: get_creator_stats_def group_by_def stats_key_def stats_join_def left_join_def
        stats_of_group_def sum_or_zero_def creator_db_def mk_post_def completed_earnings_def)

end
